theory Spec2Isabelle
  imports Main "HOL-Library.Word"
begin

text \<open>
  The PulseAudio driver of libcanberra (\<^verbatim>\<open>src/pulse.c\<close>), as functions on an explicit
  world. The model is sequential: a driver function or a callback of the event loop runs
  from its start to its end, the locks and the signals of the event loop are left out,
  and what happens on the event-loop thread while a caller waits is what the caller sees
  when it wakes up. A completion callback is user code, and the client library and the
  server are not part of the driver: a call of either is an event in a trace, and neither
  calls back into the driver while it runs.
\<close>

section \<open>Result codes\<close>

text \<open>
  Modelled from the spec: the driver's error taxonomy, whose enum is declared in
  \<^verbatim>\<open>canberra.h\<close> and not in the source file. The driver returns C \<^verbatim>\<open>int\<close> result codes;
  the source treats 0 as success (\<^verbatim>\<open>if (ret2 && ret == CA_SUCCESS)\<close>) and a negative
  value as an error (\<^verbatim>\<open>ret < 0\<close>). The numbers of the errors are those of the header; the
  proofs use only that they are negative and differ from each other.
\<close>

definition CA_SUCCESS :: int where [simp]: "CA_SUCCESS = 0"
definition CA_ERROR_NOTSUPPORTED :: int where [simp]: "CA_ERROR_NOTSUPPORTED = - 1"
definition CA_ERROR_INVALID :: int where [simp]: "CA_ERROR_INVALID = - 2"
definition CA_ERROR_STATE :: int where [simp]: "CA_ERROR_STATE = - 3"
definition CA_ERROR_OOM :: int where [simp]: "CA_ERROR_OOM = - 4"
definition CA_ERROR_NODRIVER :: int where [simp]: "CA_ERROR_NODRIVER = - 5"
definition CA_ERROR_TOOBIG :: int where [simp]: "CA_ERROR_TOOBIG = - 8"
definition CA_ERROR_NOTFOUND :: int where [simp]: "CA_ERROR_NOTFOUND = - 9"
definition CA_ERROR_DESTROYED :: int where [simp]: "CA_ERROR_DESTROYED = - 10"
definition CA_ERROR_CANCELED :: int where [simp]: "CA_ERROR_CANCELED = - 11"
definition CA_ERROR_NOTAVAILABLE :: int where [simp]: "CA_ERROR_NOTAVAILABLE = - 12"
definition CA_ERROR_ACCESS :: int where [simp]: "CA_ERROR_ACCESS = - 13"
definition CA_ERROR_IO :: int where [simp]: "CA_ERROR_IO = - 14"

text \<open>
  The server's error codes index the translation table, so they are natural numbers here.
  The values are those of PulseAudio's \<^verbatim>\<open>pulse/def.h\<close>, where they are part of the wire
  protocol. \<^verbatim>\<open>PA_ERR_MAX\<close>, the number of codes the library defines, grows with the
  library's version, so it is a parameter of \<open>translate_error\<close>.
\<close>

definition PA_OK :: nat where [simp]: "PA_OK = 0"
definition PA_ERR_ACCESS :: nat where [simp]: "PA_ERR_ACCESS = 1"
definition PA_ERR_COMMAND :: nat where [simp]: "PA_ERR_COMMAND = 2"
definition PA_ERR_INVALID :: nat where [simp]: "PA_ERR_INVALID = 3"
definition PA_ERR_EXIST :: nat where [simp]: "PA_ERR_EXIST = 4"
definition PA_ERR_NOENTITY :: nat where [simp]: "PA_ERR_NOENTITY = 5"
definition PA_ERR_CONNECTIONREFUSED :: nat where [simp]: "PA_ERR_CONNECTIONREFUSED = 6"
definition PA_ERR_PROTOCOL :: nat where [simp]: "PA_ERR_PROTOCOL = 7"
definition PA_ERR_TIMEOUT :: nat where [simp]: "PA_ERR_TIMEOUT = 8"
definition PA_ERR_AUTHKEY :: nat where [simp]: "PA_ERR_AUTHKEY = 9"
definition PA_ERR_INTERNAL :: nat where [simp]: "PA_ERR_INTERNAL = 10"
definition PA_ERR_CONNECTIONTERMINATED :: nat where [simp]: "PA_ERR_CONNECTIONTERMINATED = 11"
definition PA_ERR_KILLED :: nat where [simp]: "PA_ERR_KILLED = 12"
definition PA_ERR_INVALIDSERVER :: nat where [simp]: "PA_ERR_INVALIDSERVER = 13"
definition PA_ERR_MODINITFAILED :: nat where [simp]: "PA_ERR_MODINITFAILED = 14"
definition PA_ERR_BADSTATE :: nat where [simp]: "PA_ERR_BADSTATE = 15"
definition PA_ERR_NODATA :: nat where [simp]: "PA_ERR_NODATA = 16"
definition PA_ERR_VERSION :: nat where [simp]: "PA_ERR_VERSION = 17"
definition PA_ERR_TOOLARGE :: nat where [simp]: "PA_ERR_TOOLARGE = 18"

text \<open>Codes that \<^verbatim>\<open>pulse/def.h\<close> defines and the translation table does not name.\<close>

definition PA_ERR_NOTSUPPORTED :: nat where [simp]: "PA_ERR_NOTSUPPORTED = 19"
definition PA_ERR_UNKNOWN :: nat where [simp]: "PA_ERR_UNKNOWN = 20"

section \<open>Ways of not returning\<close>

text \<open>
  A driver function either returns a value or does not return: a failed \<^verbatim>\<open>ca_assert\<close>
  aborts the process, a dereferenced null or dangling pointer is undefined, and a wait on
  the event loop that is never signalled blocks for ever. The other checking macro,
  \<^verbatim>\<open>ca_return_val_if_fail(expr, val)\<close>, returns \<open>val\<close> from the function when \<open>expr\<close>
  does not hold.
\<close>

datatype fault = Assertion_Failed | Bad_Pointer | Blocked

datatype 'a outcome = Returned 'a | Fault fault

section \<open>The error translator\<close>

text \<open>
  \<^verbatim>\<open>static const int table[PA_ERR_MAX] = { [PA_OK] = CA_SUCCESS, ... }\<close>: an array of
  \<^verbatim>\<open>PA_ERR_MAX\<close> ints with designated initialisers. C initialises the elements that no
  designator names to 0.
\<close>

definition table :: "nat \<Rightarrow> int list" where
  "table err_max = (replicate err_max 0)
     [PA_OK := CA_SUCCESS,
      PA_ERR_ACCESS := CA_ERROR_ACCESS,
      PA_ERR_COMMAND := CA_ERROR_IO,
      PA_ERR_INVALID := CA_ERROR_INVALID,
      PA_ERR_EXIST := CA_ERROR_IO,
      PA_ERR_NOENTITY := CA_ERROR_NOTFOUND,
      PA_ERR_CONNECTIONREFUSED := CA_ERROR_NOTAVAILABLE,
      PA_ERR_PROTOCOL := CA_ERROR_IO,
      PA_ERR_TIMEOUT := CA_ERROR_IO,
      PA_ERR_AUTHKEY := CA_ERROR_ACCESS,
      PA_ERR_INTERNAL := CA_ERROR_IO,
      PA_ERR_CONNECTIONTERMINATED := CA_ERROR_IO,
      PA_ERR_KILLED := CA_ERROR_DESTROYED,
      PA_ERR_INVALIDSERVER := CA_ERROR_INVALID,
      PA_ERR_MODINITFAILED := CA_ERROR_NODRIVER,
      PA_ERR_BADSTATE := CA_ERROR_STATE,
      PA_ERR_NODATA := CA_ERROR_IO,
      PA_ERR_VERSION := CA_ERROR_NOTSUPPORTED,
      PA_ERR_TOOLARGE := CA_ERROR_TOOBIG]"

text \<open>
  \<^verbatim>\<open>translate_error(int error)\<close>: the assertion \<^verbatim>\<open>error >= 0\<close>, the range check against
  \<^verbatim>\<open>PA_ERR_MAX\<close>, then the table.
\<close>

definition translate_error :: "nat \<Rightarrow> int \<Rightarrow> int outcome" where
  "translate_error err_max error =
     (if \<not> 0 \<le> error then Fault Assertion_Failed
      else if int err_max \<le> error then Returned CA_ERROR_IO
      else Returned (table err_max ! nat error))"

section \<open>C strings and the property list\<close>

text \<open>
  A C string is the list of its characters before the terminating NUL.
  \<^verbatim>\<open>strncmp(s1, s2, n)\<close> compares at most \<open>n\<close> characters and stops at the first
  difference or at the NUL of both strings; only the sign of its result is specified.
\<close>

fun strncmp :: "string \<Rightarrow> string \<Rightarrow> nat \<Rightarrow> int" where
  "strncmp s1 s2 0 = 0"
| "strncmp [] [] (Suc n) = 0"
| "strncmp [] (y # ys) (Suc n) = - 1"
| "strncmp (x # xs) [] (Suc n) = 1"
| "strncmp (x # xs) (y # ys) (Suc n) =
     (if x = y then strncmp xs ys n
      else if (of_char x :: nat) < of_char y then - 1 else 1)"

text \<open>
  The server's property list (\<^verbatim>\<open>pa_proplist\<close>) maps keys to values; it is an association
  list here. \<^verbatim>\<open>pa_proplist_unset\<close> removes a key, \<^verbatim>\<open>pa_proplist_gets\<close> reads a string
  value and returns NULL for a key that is not set.
\<close>

type_synonym pa_proplist = "(string \<times> string) list"

definition pa_proplist_unset :: "pa_proplist \<Rightarrow> string \<Rightarrow> pa_proplist" where
  "pa_proplist_unset l key = filter (\<lambda>kv. fst kv \<noteq> key) l"

definition pa_proplist_gets :: "pa_proplist \<Rightarrow> string \<Rightarrow> string option" where
  "pa_proplist_gets l key = map_of l key"

text \<open>
  \<^verbatim>\<open>strip_canberra_data\<close>: the loop visits every key of the list (\<^verbatim>\<open>pa_proplist_iterate\<close>)
  and unsets the keys for which \<^verbatim>\<open>strncmp(key, "canberra.", 12) == 0\<close>.
\<close>

fun strip_loop :: "string list \<Rightarrow> pa_proplist \<Rightarrow> pa_proplist" where
  "strip_loop [] l = l"
| "strip_loop (key # keys) l =
     strip_loop keys (if strncmp key ''canberra.'' 12 = 0 then pa_proplist_unset l key else l)"

definition strip_canberra_data :: "pa_proplist \<Rightarrow> pa_proplist" where
  "strip_canberra_data l = strip_loop (map fst l) l"

section \<open>The driver's data\<close>

datatype outstanding_type = OUTSTANDING_SAMPLE | OUTSTANDING_STREAM | OUTSTANDING_UPLOAD

text \<open>
  Modelled from the spec: the handle of an open sound file, which the sound-file resolver
  hands out; it exposes the channel count, the sample rate and the total byte size
  (\<^verbatim>\<open>ca_sound_file_get_nchannels\<close>, \<^verbatim>\<open>..._get_rate\<close>, \<^verbatim>\<open>..._get_size\<close>).
\<close>

record sound_file =
  nchannels :: nat
  rate :: nat
  fsize :: nat

text \<open>
  \<^verbatim>\<open>struct outstanding\<close>. The list fields of \<^verbatim>\<open>CA_LLIST_FIELDS\<close> are the position of the
  struct in the registry, which is a list; \<open>addr\<close> is the address of the struct, by
  which a list node is identified. Pointers are options (\<open>None\<close> is NULL): a stream
  handle, a callback and the user data are known by a number only. The \<^verbatim>\<open>context\<close> field
  is left out: there is one context.
\<close>

record outstanding =
  addr :: nat
  otype :: outstanding_type
  oid :: "32 word"
  sink_input :: "32 word"
  stream :: "nat option"
  callback :: "nat option"
  userdata :: "nat option"
  ofile :: "sound_file option"
  oerror :: int
  clean_up :: bool

definition PA_INVALID_INDEX :: "32 word" where [simp]: "PA_INVALID_INDEX = - 1"

text \<open>\<^verbatim>\<open>ca_new0(struct outstanding, 1)\<close>: a zeroed struct at a new address.\<close>

definition new_outstanding :: "nat \<Rightarrow> outstanding" where
  "new_outstanding a =
     \<lparr>addr = a, otype = OUTSTANDING_SAMPLE, oid = 0, sink_input = 0, stream = None,
      callback = None, userdata = None, ofile = None, oerror = 0, clean_up = False\<rparr>"

text \<open>
  \<^verbatim>\<open>struct private\<close>: the handles are present or NULL; \<open>outstanding\<close> is the registry,
  its head first.
\<close>

record private_data =
  mainloop :: bool
  pcontext :: bool
  theme :: bool
  subscribed :: bool
  outstanding_mutex :: bool
  outstanding :: "outstanding list"

section \<open>The library, the server and the trace\<close>

text \<open>
  What the driver does to the outside is recorded in a trace. A completion callback is
  user code: the trace records its arguments and the addresses of the requests that are
  linked into the registry at the moment it is called, which is what the callback can
  observe of the registry.
\<close>

datatype event =
    Ev_callback nat "32 word" int "nat option" "nat list"
  | Ev_sound_file_close
  | Ev_stream_disconnect nat
  | Ev_free nat
  | Ev_mainloop_stop
  | Ev_mainloop_free
  | Ev_context_disconnect
  | Ev_theme_free
  | Ev_context_subscribe
  | Ev_play_sample string pa_proplist
  | Ev_kill_sink_input "32 word"
  | Ev_lookup_sound
  | Ev_stream_new string "nat \<times> nat" pa_proplist
  | Ev_connect_playback nat
  | Ev_connect_upload nat nat
  | Ev_stream_write nat nat
  | Ev_finish_upload nat
  | Ev_drain nat

text \<open>
  The answers of the library and of the server are scripted: each call takes the next
  answer of its script. A call whose script is used up does not return (\<open>Blocked\<close>).
  A call that can fail answers \<open>Pa_ok\<close> or \<open>Pa_fail e\<close>, where \<open>e\<close> is what
  \<^verbatim>\<open>pa_context_errno\<close> reports afterwards.
\<close>

datatype 'a pa_answer = Pa_ok 'a | Pa_fail nat

text \<open>
  \<^verbatim>\<open>pa_context_play_sample_with_proplist\<close> either returns no operation, or an operation
  that completes by calling \<^verbatim>\<open>play_sample_cb\<close> with a sink-input index (and the
  context's error, for \<^verbatim>\<open>PA_INVALID_INDEX\<close>), or an operation that never completes.
\<close>

datatype play_answer = Play_refused nat | Play_done "32 word" nat | Play_never

datatype pa_stream_state =
  PA_STREAM_UNCONNECTED | PA_STREAM_CREATING | PA_STREAM_READY | PA_STREAM_FAILED
  | PA_STREAM_TERMINATED

datatype pa_context_state =
  PA_CONTEXT_UNCONNECTED | PA_CONTEXT_CONNECTING | PA_CONTEXT_AUTHORIZING
  | PA_CONTEXT_SETTING_NAME | PA_CONTEXT_READY | PA_CONTEXT_FAILED | PA_CONTEXT_TERMINATED

text \<open>
  What a thread that waits on the event loop sees when it wakes up: the state of its
  stream, the context's error, and the error that \<^verbatim>\<open>stream_write_cb\<close> has stored in the
  request meanwhile, if it has.
\<close>

record wakeup =
  seen_state :: pa_stream_state
  seen_errno :: nat
  seen_error :: "int option"

text \<open>
  The world: the context's private data (\<^verbatim>\<open>c->private\<close>, NULL before \<^verbatim>\<open>driver_open\<close>
  and after \<^verbatim>\<open>driver_destroy\<close>), the requests that are alive and not linked into the
  registry (what a stream callback may be handed besides a request of the registry: the
  request of a \<^verbatim>\<open>driver_cache\<close> or \<^verbatim>\<open>driver_play\<close> that waits on the event loop), the
  trace, the next free address, the library's \<^verbatim>\<open>PA_ERR_MAX\<close>, which keys
  \<^verbatim>\<open>pa_proplist_set\<close> accepts, which strings \<^verbatim>\<open>strtod\<close> reads to their end without a
  range error, and the scripts.
\<close>

record world =
  priv :: "private_data option"
  unlinked :: "outstanding list"
  log :: "event list"
  next_addr :: nat
  pa_err_max :: nat
  key_valid :: "string \<Rightarrow> bool"
  strtod_ok :: "string \<Rightarrow> bool"
  alloc_r :: "bool list"
  subscribe_r :: "unit pa_answer list"
  play_sample_r :: "play_answer list"
  kill_r :: "unit pa_answer list"
  lookup_r :: "(int \<times> sound_file option) list"
  stream_new_r :: "nat pa_answer list"
  connect_r :: "unit pa_answer list"
  wakeup_r :: "wakeup list"
  get_index_r :: "(32 word \<times> nat) list"
  read_r :: "(int \<times> nat) list"
  write_r :: "int list"
  finish_upload_r :: "unit pa_answer list"
  drain_r :: "unit pa_answer list"

type_synonym 'a run = "world \<Rightarrow> 'a outcome \<times> world"

definition result :: "'a \<Rightarrow> 'a run" where
  "result x w = (Returned x, w)"

definition fail :: "fault \<Rightarrow> 'a run" where
  "fail f w = (Fault f, w)"

definition bnd :: "'a run \<Rightarrow> ('a \<Rightarrow> 'b run) \<Rightarrow> 'b run" where
  "bnd m k w = (case m w of (Returned x, w') \<Rightarrow> k x w' | (Fault f, w') \<Rightarrow> (Fault f, w'))"

definition lift :: "'a outcome \<Rightarrow> 'a run" where
  "lift x w = (x, w)"

definition emit :: "event \<Rightarrow> unit run" where
  "emit e w = (Returned (), w\<lparr>log := log w @ [e]\<rparr>)"

text \<open>\<^verbatim>\<open>PRIVATE(c)\<close>, that is \<^verbatim>\<open>c->private\<close>.\<close>

definition get_priv :: "private_data option run" where
  "get_priv w = (Returned (priv w), w)"

definition pop :: "(world \<Rightarrow> 'a list) \<Rightarrow> ('a list \<Rightarrow> world \<Rightarrow> world) \<Rightarrow> 'a run" where
  "pop script rest w =
     (case script w of [] \<Rightarrow> (Fault Blocked, w) | x # xs \<Rightarrow> (Returned x, rest xs w))"

text \<open>\<open>translate_error\<close> with the \<^verbatim>\<open>PA_ERR_MAX\<close> of the world.\<close>

definition translated :: "int \<Rightarrow> int run" where
  "translated error w = (translate_error (pa_err_max w) error, w)"

subsection \<open>Library calls\<close>

text \<open>An allocation (\<^verbatim>\<open>ca_new0\<close>, \<^verbatim>\<open>ca_strdup\<close>, \<^verbatim>\<open>ca_malloc\<close>, \<^verbatim>\<open>pa_proplist_new\<close>) succeeds or not.\<close>

definition alloc :: "bool run" where
  "alloc = pop alloc_r (\<lambda>xs w. w\<lparr>alloc_r := xs\<rparr>)"

definition ca_new0 :: "nat option run" where
  "ca_new0 =
     bnd alloc (\<lambda>ok. if ok
       then (\<lambda>w. (Returned (Some (next_addr w)), w\<lparr>next_addr := Suc (next_addr w)\<rparr>))
       else result None)"

text \<open>A call of the client library: its event in the trace, then the answer of its script.\<close>

definition pa_context_subscribe :: "unit pa_answer run" where
  "pa_context_subscribe =
     bnd (emit Ev_context_subscribe) (\<lambda>_. pop subscribe_r (\<lambda>xs w. w\<lparr>subscribe_r := xs\<rparr>))"

definition pa_context_play_sample_with_proplist :: "string \<Rightarrow> pa_proplist \<Rightarrow> play_answer run" where
  "pa_context_play_sample_with_proplist name l =
     bnd (emit (Ev_play_sample name l)) (\<lambda>_. pop play_sample_r (\<lambda>xs w. w\<lparr>play_sample_r := xs\<rparr>))"

definition pa_context_kill_sink_input :: "32 word \<Rightarrow> unit pa_answer run" where
  "pa_context_kill_sink_input idx =
     bnd (emit (Ev_kill_sink_input idx)) (\<lambda>_. pop kill_r (\<lambda>xs w. w\<lparr>kill_r := xs\<rparr>))"

text \<open>
  The sound-file resolver answers its result code and the file handle that it has stored
  in \<^verbatim>\<open>out->file\<close>. The theme cache that it fills on the way is not followed.
\<close>

definition ca_lookup_sound :: "(int \<times> sound_file option) run" where
  "ca_lookup_sound =
     bnd (emit Ev_lookup_sound) (\<lambda>_. pop lookup_r (\<lambda>xs w. w\<lparr>lookup_r := xs\<rparr>))"

definition pa_stream_new_with_proplist ::
  "string \<Rightarrow> nat \<times> nat \<Rightarrow> pa_proplist \<Rightarrow> nat pa_answer run" where
  "pa_stream_new_with_proplist name ss l =
     bnd (emit (Ev_stream_new name ss l)) (\<lambda>_. pop stream_new_r (\<lambda>xs w. w\<lparr>stream_new_r := xs\<rparr>))"

definition pa_stream_connect_playback :: "nat \<Rightarrow> unit pa_answer run" where
  "pa_stream_connect_playback s =
     bnd (emit (Ev_connect_playback s)) (\<lambda>_. pop connect_r (\<lambda>xs w. w\<lparr>connect_r := xs\<rparr>))"

definition pa_stream_connect_upload :: "nat \<Rightarrow> nat \<Rightarrow> unit pa_answer run" where
  "pa_stream_connect_upload s n =
     bnd (emit (Ev_connect_upload s n)) (\<lambda>_. pop connect_r (\<lambda>xs w. w\<lparr>connect_r := xs\<rparr>))"

text \<open>
  \<^verbatim>\<open>pa_stream_get_state\<close> in a loop around \<^verbatim>\<open>pa_threaded_mainloop_wait\<close>: each turn of the
  loop sees the next wake-up of the script.
\<close>

definition next_wakeup :: "wakeup run" where
  "next_wakeup = pop wakeup_r (\<lambda>xs w. w\<lparr>wakeup_r := xs\<rparr>)"

definition pa_stream_get_index :: "(32 word \<times> nat) run" where
  "pa_stream_get_index = pop get_index_r (\<lambda>xs w. w\<lparr>get_index_r := xs\<rparr>)"

subsection \<open>The registry\<close>

definition linked :: "world \<Rightarrow> nat list" where
  "linked w = (case priv w of None \<Rightarrow> [] | Some p \<Rightarrow> map addr (outstanding p))"

text \<open>\<^verbatim>\<open>if (out->callback) out->callback(c, out->id, err, out->userdata);\<close>\<close>

definition callback_events :: "outstanding \<Rightarrow> int \<Rightarrow> nat list \<Rightarrow> event list" where
  "callback_events out err seen =
     (case callback out of
        None \<Rightarrow> []
      | Some cb \<Rightarrow> [Ev_callback cb (oid out) err (userdata out) seen])"

definition call_callback :: "outstanding \<Rightarrow> int \<Rightarrow> world \<Rightarrow> world" where
  "call_callback out err w = w\<lparr>log := log w @ callback_events out err (linked w)\<rparr>"

text \<open>
  \<^verbatim>\<open>outstanding_free\<close> of a struct that is there (the assertion \<^verbatim>\<open>o\<close> holds): the file is
  closed if there is one, the stream is disconnected if there is one, the struct is freed.
\<close>

definition free_events :: "outstanding \<Rightarrow> event list" where
  "free_events out =
     (case ofile out of None \<Rightarrow> [] | Some f \<Rightarrow> [Ev_sound_file_close])
     @ (case stream out of None \<Rightarrow> [] | Some s \<Rightarrow> [Ev_stream_disconnect s])
     @ [Ev_free (addr out)]"

definition outstanding_free :: "outstanding \<Rightarrow> world \<Rightarrow> world" where
  "outstanding_free out w = w\<lparr>log := log w @ free_events out\<rparr>"

text \<open>
  Modelled from the spec: the registry's list operations, the macros \<^verbatim>\<open>CA_LLIST_REMOVE\<close>
  and \<^verbatim>\<open>CA_LLIST_PREPEND\<close> of \<^verbatim>\<open>llist.h\<close> (the spec: an intrusive list with manual prepend
  and removal by identity). Removal takes the node with the given address out of the
  list; for a node that is not in the list (its \<^verbatim>\<open>prev\<close> is NULL and it is not the head)
  the macro's assertion fails. Prepending makes a node the head.
\<close>

fun llist_remove :: "nat \<Rightarrow> outstanding list \<Rightarrow> outstanding list option" where
  "llist_remove a [] = None"
| "llist_remove a (x # xs) =
     (if addr x = a then Some xs else map_option (Cons x) (llist_remove a xs))"

definition set_outstanding :: "outstanding list \<Rightarrow> world \<Rightarrow> world" where
  "set_outstanding xs w = w\<lparr>priv := map_option (\<lambda>p. p\<lparr>outstanding := xs\<rparr>) (priv w)\<rparr>"

definition remove_outstanding :: "outstanding \<Rightarrow> unit run" where
  "remove_outstanding out w =
     (case priv w of
        None \<Rightarrow> (Fault Bad_Pointer, w)
      | Some p \<Rightarrow>
          (case llist_remove (addr out) (outstanding p) of
             None \<Rightarrow> (Fault Assertion_Failed, w)
           | Some xs \<Rightarrow> (Returned (), set_outstanding xs w)))"

definition do_callback :: "outstanding \<Rightarrow> int \<Rightarrow> unit run" where
  "do_callback out err w = (Returned (), call_callback out err w)"

definition do_free :: "outstanding \<Rightarrow> unit run" where
  "do_free out w = (Returned (), outstanding_free out w)"

definition prepend_outstanding :: "outstanding \<Rightarrow> unit run" where
  "prepend_outstanding out w =
     (case priv w of
        None \<Rightarrow> (Fault Bad_Pointer, w)
      | Some p \<Rightarrow> (Returned (), set_outstanding (out # outstanding p) w))"

section \<open>Closing the context\<close>

text \<open>
  The loop of \<^verbatim>\<open>driver_destroy\<close>: while the registry has a head, take the head out of the
  list, call its callback with \<^verbatim>\<open>CA_ERROR_DESTROYED\<close> and free it.
\<close>

function destroy_loop :: "world \<Rightarrow> world" where
  "destroy_loop w =
     (case priv w of
        None \<Rightarrow> w
      | Some p \<Rightarrow>
          (case outstanding p of
             [] \<Rightarrow> w
           | out # rest \<Rightarrow>
               destroy_loop
                 (outstanding_free out
                   (call_callback out CA_ERROR_DESTROYED (set_outstanding rest w)))))"
  by pat_completeness auto
termination
  by (relation "measure (\<lambda>w. case priv w of None \<Rightarrow> 0 | Some p \<Rightarrow> length (outstanding p))")
     (auto simp: outstanding_free_def call_callback_def set_outstanding_def split: option.splits)

datatype context_ptr = Null | Context

definition driver_destroy :: "context_ptr \<Rightarrow> int run" where
  "driver_destroy c w =
     (if c = Null then (Returned CA_ERROR_INVALID, w)
      else case priv w of
        None \<Rightarrow> (Returned CA_ERROR_STATE, w)
      | Some p \<Rightarrow>
          let w1 = (if mainloop p then w\<lparr>log := log w @ [Ev_mainloop_stop]\<rparr> else w);
              w2 = destroy_loop w1;
              w3 = (if pcontext p then w2\<lparr>log := log w2 @ [Ev_context_disconnect]\<rparr> else w2);
              w4 = (if mainloop p then w3\<lparr>log := log w3 @ [Ev_mainloop_free]\<rparr> else w3);
              w5 = (if theme p then w4\<lparr>log := log w4 @ [Ev_theme_free]\<rparr> else w4)
          in (Returned CA_SUCCESS, w5\<lparr>priv := None\<rparr>))"

section \<open>The connection's callbacks\<close>

text \<open>
  The loop of \<^verbatim>\<open>context_state_cb\<close>, which runs when the connection has failed or
  terminated: while the registry has a head, take it out of the list, call its callback
  with the translated error and free it.
\<close>

function state_cb_loop :: "int \<Rightarrow> world \<Rightarrow> world" where
  "state_cb_loop ret w =
     (case priv w of
        None \<Rightarrow> w
      | Some p \<Rightarrow>
          (case outstanding p of
             [] \<Rightarrow> w
           | out # rest \<Rightarrow>
               state_cb_loop ret
                 (outstanding_free out (call_callback out ret (set_outstanding rest w)))))"
  by pat_completeness auto
termination
  by (relation "measure (\<lambda>(ret, w). case priv w of None \<Rightarrow> 0 | Some p \<Rightarrow> length (outstanding p))")
     (auto simp: outstanding_free_def call_callback_def set_outstanding_def split: option.splits)

text \<open>
  \<^verbatim>\<open>context_state_cb\<close>; \<open>state\<close> is what \<^verbatim>\<open>pa_context_get_state\<close> reports and \<open>errno\<close>
  what \<^verbatim>\<open>pa_context_errno\<close> reports when the callback runs.
\<close>

definition context_state_cb :: "pa_context_state \<Rightarrow> nat \<Rightarrow> unit run" where
  "context_state_cb state errno =
     bnd get_priv (\<lambda>p.
       case p of
         None \<Rightarrow> fail Bad_Pointer
       | Some p \<Rightarrow>
           if state = PA_CONTEXT_FAILED \<or> state = PA_CONTEXT_TERMINATED
           then bnd (translated (int errno)) (\<lambda>ret w. (Returned (), state_cb_loop ret w))
           else result ())"

text \<open>
  \<^verbatim>\<open>context_subscribe_cb\<close>. The first loop walks the registry and moves every request of
  type \<^verbatim>\<open>OUTSTANDING_SAMPLE\<close> with the removed sink input from the registry to the local
  list \<open>l\<close>; the second loop takes the head of \<open>l\<close>, calls its callback with
  \<^verbatim>\<open>CA_SUCCESS\<close> and frees it.
\<close>

definition PA_SUBSCRIPTION_EVENT_SINK_INPUT :: "32 word" where
  [simp]: "PA_SUBSCRIPTION_EVENT_SINK_INPUT = 2"

definition PA_SUBSCRIPTION_EVENT_REMOVE :: "32 word" where
  [simp]: "PA_SUBSCRIPTION_EVENT_REMOVE = 32"

fun collect_loop ::
  "32 word \<Rightarrow> outstanding list \<Rightarrow> outstanding list \<Rightarrow> outstanding list \<Rightarrow>
   (outstanding list \<times> outstanding list) option" where
  "collect_loop idx [] reg l = Some (reg, l)"
| "collect_loop idx (out # n) reg l =
     (if otype out \<noteq> OUTSTANDING_SAMPLE \<or> sink_input out \<noteq> idx then collect_loop idx n reg l
      else case llist_remove (addr out) reg of
             None \<Rightarrow> None
           | Some reg' \<Rightarrow> collect_loop idx n reg' (out # l))"

fun finished_loop :: "outstanding list \<Rightarrow> world \<Rightarrow> world" where
  "finished_loop [] w = w"
| "finished_loop (out # l) w =
     finished_loop l (outstanding_free out (call_callback out CA_SUCCESS w))"

unbundle bit_operations_syntax

definition context_subscribe_cb :: "32 word \<Rightarrow> 32 word \<Rightarrow> unit run" where
  "context_subscribe_cb t idx =
     (if t \<noteq> (PA_SUBSCRIPTION_EVENT_SINK_INPUT OR PA_SUBSCRIPTION_EVENT_REMOVE)
      then result ()
      else bnd get_priv (\<lambda>p.
        case p of
          None \<Rightarrow> fail Bad_Pointer
        | Some p \<Rightarrow>
            (case collect_loop idx (outstanding p) (outstanding p) [] of
               None \<Rightarrow> fail Assertion_Failed
             | Some (reg, l) \<Rightarrow> (\<lambda>w. (Returned (), finished_loop l (set_outstanding reg w))))))"

section \<open>Subscribing to sink-input events\<close>

text \<open>
  \<^verbatim>\<open>subscribe\<close> declares \<^verbatim>\<open>int ret;\<close> without a value and assigns it only when
  \<^verbatim>\<open>pa_context_subscribe\<close> returns no operation. \<open>ret0\<close> is the indeterminate value the
  variable holds otherwise.
\<close>

definition set_subscribed :: "unit run" where
  "set_subscribed w =
     (Returned (), w\<lparr>priv := map_option (\<lambda>p. p\<lparr>subscribed := True\<rparr>) (priv w)\<rparr>)"

definition subscribe :: "int \<Rightarrow> context_ptr \<Rightarrow> int run" where
  "subscribe ret0 c =
     (if c = Null then result CA_ERROR_INVALID
      else bnd get_priv (\<lambda>p.
        case p of
          None \<Rightarrow> result CA_ERROR_STATE
        | Some p \<Rightarrow>
            if \<not> mainloop p then result CA_ERROR_STATE
            else if \<not> pcontext p then result CA_ERROR_STATE
            else if \<not> \<not> subscribed p then result CA_SUCCESS
            else
              bnd pa_context_subscribe (\<lambda>o'.
              bnd (case o' of Pa_fail e \<Rightarrow> translated (int e) | Pa_ok _ \<Rightarrow> result ret0) (\<lambda>ret.
              bnd set_subscribed (\<lambda>_. result ret)))))"

section \<open>Cancelling\<close>

text \<open>
  The loop of \<^verbatim>\<open>driver_cancel\<close> walks the registry (\<^verbatim>\<open>n = out->next\<close> is read before the
  node is removed). \<^verbatim>\<open>int ret2;\<close> is declared in the loop body without a value and is
  assigned only when \<^verbatim>\<open>pa_context_kill_sink_input\<close> returns no operation; \<open>ret2_0 i\<close>
  is the indeterminate value it holds otherwise in turn \<open>i\<close> of the loop.
  The statements are in the order of the source: kill, fold \<open>ret2\<close> into \<open>ret\<close>,
  callback, \<^verbatim>\<open>CA_LLIST_REMOVE\<close>, \<^verbatim>\<open>outstanding_free\<close>.
\<close>

fun cancel_loop ::
  "(nat \<Rightarrow> int) \<Rightarrow> 32 word \<Rightarrow> nat \<Rightarrow> outstanding list \<Rightarrow> int \<Rightarrow> int run" where
  "cancel_loop ret2_0 id' i [] ret = result ret"
| "cancel_loop ret2_0 id' i (out # n) ret =
     (if otype out = OUTSTANDING_UPLOAD \<or> oid out \<noteq> id' \<or> sink_input out = PA_INVALID_INDEX
      then cancel_loop ret2_0 id' (Suc i) n ret
      else
        bnd (pa_context_kill_sink_input (sink_input out)) (\<lambda>o'.
        bnd (case o' of Pa_fail e \<Rightarrow> translated (int e) | Pa_ok _ \<Rightarrow> result (ret2_0 i)) (\<lambda>ret2.
        bnd (do_callback out CA_ERROR_CANCELED) (\<lambda>_.
        bnd (remove_outstanding out) (\<lambda>_.
        bnd (do_free out) (\<lambda>_.
          cancel_loop ret2_0 id' (Suc i) n
            (if ret2 \<noteq> 0 \<and> ret = CA_SUCCESS then ret2 else ret)))))))"

definition driver_cancel :: "(nat \<Rightarrow> int) \<Rightarrow> context_ptr \<Rightarrow> 32 word \<Rightarrow> int run" where
  "driver_cancel ret2_0 c id' =
     (if c = Null then result CA_ERROR_INVALID
      else bnd get_priv (\<lambda>p.
        case p of
          None \<Rightarrow> result CA_ERROR_STATE
        | Some p \<Rightarrow>
            if \<not> mainloop p then result CA_ERROR_STATE
            else if \<not> pcontext p then result CA_ERROR_STATE
            else cancel_loop ret2_0 id' 0 (outstanding p) CA_SUCCESS))"

section \<open>The streams' callbacks\<close>

text \<open>
  The stream callbacks get the request as their \<^verbatim>\<open>userdata\<close> pointer. The requests that
  are alive are those of the registry and those that a call of the driver has allocated
  and not linked (yet); a callback finds its request among them by its address, and any
  other address is a dangling pointer. The callbacks read \<^verbatim>\<open>PRIVATE(out->context)\<close>
  first, which is NULL on a context that is not open.
\<close>

definition find_outstanding :: "nat \<Rightarrow> outstanding run" where
  "find_outstanding a w =
     (case priv w of
        None \<Rightarrow> (Fault Bad_Pointer, w)
      | Some p \<Rightarrow>
          (case find (\<lambda>x. addr x = a) (outstanding p @ unlinked w) of
             None \<Rightarrow> (Fault Bad_Pointer, w)
           | Some out \<Rightarrow> (Returned out, w)))"

text \<open>A store into the fields of a request, wherever the request is.\<close>

definition update_outstanding :: "outstanding \<Rightarrow> unit run" where
  "update_outstanding out w =
     (Returned (),
      w\<lparr>priv := map_option
          (\<lambda>p. p\<lparr>outstanding := map (\<lambda>x. if addr x = addr out then out else x) (outstanding p)\<rparr>)
          (priv w),
        unlinked := map (\<lambda>x. if addr x = addr out then out else x) (unlinked w)\<rparr>)"

text \<open>
  \<^verbatim>\<open>play_sample_cb\<close> stores the result of a play attempt in the request; \<open>errno\<close> is
  what \<^verbatim>\<open>pa_context_errno\<close> reports when it runs.
\<close>

definition play_sample_cb :: "32 word \<Rightarrow> nat \<Rightarrow> outstanding \<Rightarrow> outstanding run" where
  "play_sample_cb idx errno out =
     (if idx \<noteq> PA_INVALID_INDEX then result (out\<lparr>oerror := CA_SUCCESS, sink_input := idx\<rparr>)
      else bnd (translated (int errno)) (\<lambda>e. result (out\<lparr>oerror := e\<rparr>)))"

definition stream_state_cb :: "nat \<Rightarrow> pa_stream_state \<Rightarrow> nat \<Rightarrow> unit run" where
  "stream_state_cb a state errno =
     bnd (find_outstanding a) (\<lambda>out.
       if clean_up out \<and> (state = PA_STREAM_FAILED \<or> state = PA_STREAM_TERMINATED)
       then
         bnd (remove_outstanding out) (\<lambda>_.
         bnd (if state = PA_STREAM_FAILED then translated (int errno)
              else result CA_ERROR_DESTROYED) (\<lambda>err.
         bnd (do_callback out err) (\<lambda>_. do_free out)))
       else result ())"

text \<open>
  \<^verbatim>\<open>stream_drain_cb\<close>. Its first assertion, \<^verbatim>\<open>ca_assert(out->type = OUTSTANDING_STREAM)\<close>,
  is an assignment of a non-zero value: it holds and sets the type.
\<close>

definition stream_drain_cb :: "nat \<Rightarrow> int \<Rightarrow> nat \<Rightarrow> unit run" where
  "stream_drain_cb a success errno =
     bnd (find_outstanding a) (\<lambda>out0.
       let out = out0\<lparr>otype := OUTSTANDING_STREAM\<rparr> in
       bnd (update_outstanding out) (\<lambda>_.
         if \<not> clean_up out then fail Assertion_Failed
         else
           bnd (remove_outstanding out) (\<lambda>_.
           bnd (if callback out = None then result CA_SUCCESS
                else if success \<noteq> 0 then result CA_SUCCESS
                else translated (int errno)) (\<lambda>err.
           bnd (do_callback out err) (\<lambda>_. do_free out)))))"

definition ca_sound_file_read_arbitrary :: "(int \<times> nat) run" where
  "ca_sound_file_read_arbitrary = pop read_r (\<lambda>xs w. w\<lparr>read_r := xs\<rparr>)"

definition pa_stream_write :: "nat \<Rightarrow> nat \<Rightarrow> int run" where
  "pa_stream_write s n =
     bnd (emit (Ev_stream_write s n)) (\<lambda>_. pop write_r (\<lambda>xs w. w\<lparr>write_r := xs\<rparr>))"

definition pa_stream_finish_upload :: "nat \<Rightarrow> unit pa_answer run" where
  "pa_stream_finish_upload s =
     bnd (emit (Ev_finish_upload s)) (\<lambda>_. pop finish_upload_r (\<lambda>xs w. w\<lparr>finish_upload_r := xs\<rparr>))"

definition pa_stream_drain :: "nat \<Rightarrow> unit pa_answer run" where
  "pa_stream_drain s =
     bnd (emit (Ev_drain s)) (\<lambda>_. pop drain_r (\<lambda>xs w. w\<lparr>drain_r := xs\<rparr>))"

text \<open>The label \<^verbatim>\<open>finish\<close> of \<^verbatim>\<open>stream_write_cb\<close>.\<close>

definition write_finish :: "outstanding \<Rightarrow> nat \<Rightarrow> int \<Rightarrow> unit run" where
  "write_finish out s ret =
     (if clean_up out
      then bnd (remove_outstanding out) (\<lambda>_.
           bnd (do_callback out ret) (\<lambda>_. do_free out))
      else bnd (emit (Ev_stream_disconnect s)) (\<lambda>_.
           update_outstanding (out\<lparr>oerror := ret\<rparr>)))"

text \<open>
  \<^verbatim>\<open>stream_write_cb\<close> for the request at address \<open>a\<close>, its stream \<open>s\<close> and the number
  of bytes the server asks for. When \<^verbatim>\<open>pa_stream_write\<close> fails, its negative result is
  what is passed to \<^verbatim>\<open>translate_error\<close>. In the branch that drains the stream,
  \<^verbatim>\<open>ca_assert(out->type = OUTSTANDING_STREAM)\<close> is again an assignment.
\<close>

definition stream_write_cb :: "nat \<Rightarrow> nat \<Rightarrow> nat \<Rightarrow> unit run" where
  "stream_write_cb a s bytes =
     bnd (find_outstanding a) (\<lambda>out.
       if \<not> 0 < bytes then fail Assertion_Failed
       else
         bnd alloc (\<lambda>data.
           if \<not> data then write_finish out s CA_ERROR_OOM
           else
             bnd ca_sound_file_read_arbitrary (\<lambda>(ret, bytes').
               if ret < 0 then write_finish out s ret
               else if 0 < bytes' then
                 bnd (pa_stream_write s bytes') (\<lambda>ret.
                   if ret < 0 then bnd (translated ret) (write_finish out s)
                   else result ())
               else if otype out = OUTSTANDING_UPLOAD then
                 bnd (pa_stream_finish_upload s) (\<lambda>r.
                   case r of
                     Pa_fail e \<Rightarrow> bnd (translated (int e)) (write_finish out s)
                   | Pa_ok _ \<Rightarrow> result ())
               else
                 let out = out\<lparr>otype := OUTSTANDING_STREAM\<rparr> in
                 bnd (update_outstanding out) (\<lambda>_.
                 bnd (pa_stream_drain s) (\<lambda>o'.
                   case o' of
                     Pa_fail e \<Rightarrow> bnd (translated (int e)) (write_finish out s)
                   | Pa_ok _ \<Rightarrow> result ())))))"

section \<open>Properties of a request\<close>

text \<open>
  Modelled from the spec: the caller's property container (\<^verbatim>\<open>ca_proplist\<close>), which is
  iterated as ordered pairs of a key and its bytes; here the list of its items, or NULL.
  The names of the event-name, volume and cache-control properties are the macros of
  \<^verbatim>\<open>canberra.h\<close>.
\<close>

type_synonym ca_proplist = "(string \<times> string) list"

definition CA_PROP_EVENT_ID :: string where
  [simp]: "CA_PROP_EVENT_ID = ''event.id''"

definition CA_PROP_CANBERRA_VOLUME :: string where
  [simp]: "CA_PROP_CANBERRA_VOLUME = ''canberra.volume''"

definition CA_PROP_CANBERRA_CACHE_CONTROL :: string where
  [simp]: "CA_PROP_CANBERRA_CACHE_CONTROL = ''canberra.cache-control''"

text \<open>\<^verbatim>\<open>pa_proplist_set\<close> replaces the value of a key that is set and adds the others.\<close>

fun pa_proplist_set :: "pa_proplist \<Rightarrow> string \<Rightarrow> string \<Rightarrow> pa_proplist" where
  "pa_proplist_set [] key v = [(key, v)]"
| "pa_proplist_set ((k', v') # l) key v =
     (if k' = key then (key, v) # l else (k', v') # pa_proplist_set l key v)"

text \<open>The loop of \<^verbatim>\<open>convert_proplist\<close>; \<open>None\<close> when \<^verbatim>\<open>pa_proplist_set\<close> refuses a key.\<close>

fun convert_items :: "(string \<Rightarrow> bool) \<Rightarrow> ca_proplist \<Rightarrow> pa_proplist \<Rightarrow> pa_proplist option" where
  "convert_items valid [] l = Some l"
| "convert_items valid ((key, v) # items) l =
     (if valid key then convert_items valid items (pa_proplist_set l key v) else None)"

definition convert_proplist :: "ca_proplist option \<Rightarrow> (int \<times> pa_proplist option) run" where
  "convert_proplist c =
     (case c of
        None \<Rightarrow> result (CA_ERROR_INVALID, None)
      | Some items \<Rightarrow>
          bnd alloc (\<lambda>l.
            if \<not> l then result (CA_ERROR_OOM, None)
            else (\<lambda>w. case convert_items (key_valid w) items [] of
                         None \<Rightarrow> (Returned (CA_ERROR_INVALID, None), w)
                       | Some l' \<Rightarrow> (Returned (CA_SUCCESS, Some l'), w))))"

text \<open>The cache control of a request: the retry policy of \<^verbatim>\<open>driver_play\<close>.\<close>

datatype ca_cache_control_t =
  CA_CACHE_CONTROL_NEVER | CA_CACHE_CONTROL_PERMANENT | CA_CACHE_CONTROL_VOLATILE

text \<open>
  Modelled from the spec: \<^verbatim>\<open>ca_parse_cache_control\<close>, which is defined in another file of
  the library. The spec: a cache-control value is one of never, permanent, volatile,
  encoded as a string property and parsed with strict syntax; an unparseable value is an
  Invalid error. The function returns the result code and the value of its output
  parameter, which it leaves as it was when the string does not parse.
\<close>

definition ca_parse_cache_control ::
  "ca_cache_control_t \<Rightarrow> string \<Rightarrow> int \<times> ca_cache_control_t" where
  "ca_parse_cache_control control c =
     (if c = ''never'' then (CA_SUCCESS, CA_CACHE_CONTROL_NEVER)
      else if c = ''permanent'' then (CA_SUCCESS, CA_CACHE_CONTROL_PERMANENT)
      else if c = ''volatile'' then (CA_SUCCESS, CA_CACHE_CONTROL_VOLATILE)
      else (CA_ERROR_INVALID, control))"

text \<open>
  Modelled from the spec: the values of the enumeration constants of
  \<^verbatim>\<open>ca_cache_control_t\<close>, which is declared in another file: never, permanent, volatile,
  in the order in which the spec names them; C numbers the constants of an enum from 0.
\<close>

fun cache_control_value :: "ca_cache_control_t \<Rightarrow> int" where
  "cache_control_value CA_CACHE_CONTROL_NEVER = 0"
| "cache_control_value CA_CACHE_CONTROL_PERMANENT = 1"
| "cache_control_value CA_CACHE_CONTROL_VOLATILE = 2"

text \<open>
  A pointer that the library returned, compared with an integer constant: the null
  pointer equals the constant 0, and the address of an object equals none of the small
  values of an enum.
\<close>

definition ptr_eq_int :: "'a option \<Rightarrow> int \<Rightarrow> bool" where
  "ptr_eq_int p k = (case p of None \<Rightarrow> k = 0 | Some x \<Rightarrow> False)"

section \<open>Uploading a sample\<close>

text \<open>
  The wait loop of \<^verbatim>\<open>driver_cache\<close>: \<^verbatim>\<open>PA_STREAM_TERMINATED\<close> ends it (\<open>None\<close>),
  \<^verbatim>\<open>PA_STREAM_FAILED\<close> leaves for the label \<^verbatim>\<open>finish\<close> with the translated error, and any
  other state waits for the next wake-up.
\<close>

function cache_wait :: "int option run" where
  "cache_wait w =
     (case wakeup_r w of
        [] \<Rightarrow> (Fault Blocked, w)
      | u # us \<Rightarrow>
          if seen_state u = PA_STREAM_TERMINATED then (Returned None, w\<lparr>wakeup_r := us\<rparr>)
          else if seen_state u = PA_STREAM_FAILED then
            (case translate_error (pa_err_max w) (int (seen_errno u)) of
               Fault f \<Rightarrow> (Fault f, w\<lparr>wakeup_r := us\<rparr>)
             | Returned ret \<Rightarrow> (Returned (Some ret), w\<lparr>wakeup_r := us\<rparr>))
          else cache_wait (w\<lparr>wakeup_r := us\<rparr>))"
  by pat_completeness auto
termination
  by (relation "measure (\<lambda>w. length (wakeup_r w))") auto

text \<open>The label \<^verbatim>\<open>finish\<close> of \<^verbatim>\<open>driver_cache\<close>: the request is freed and \<open>ret\<close> returned.\<close>

definition cache_finish :: "outstanding \<Rightarrow> int \<Rightarrow> int run" where
  "cache_finish out ret = bnd (do_free out) (\<lambda>_. result ret)"

text \<open>
  \<^verbatim>\<open>driver_cache\<close>. When \<^verbatim>\<open>ca_new0\<close> fails, the code goes to \<^verbatim>\<open>finish\<close> with a null
  \<open>out\<close>, where \<^verbatim>\<open>outstanding_free\<close> asserts that its argument is not null. The test
  after the cache-control property is read is \<^verbatim>\<open>ct == CA_CACHE_CONTROL_NEVER\<close>: it
  compares \<open>ct\<close>, the pointer to the property's string, with the enumeration constant.
  The sample spec is the pair of the file's channel count, stored in the 8 bits of
  \<^verbatim>\<open>ss.channels\<close>, and its rate (the format field is never set: the sample type is
  assigned to \<^verbatim>\<open>ss.channels\<close> too, and overwritten).
\<close>

definition driver_cache :: "context_ptr \<Rightarrow> ca_proplist option \<Rightarrow> int run" where
  "driver_cache c proplist =
     (if c = Null then result CA_ERROR_INVALID
      else if proplist = None then result CA_ERROR_INVALID
      else bnd get_priv (\<lambda>p.
        case p of
        None \<Rightarrow> result CA_ERROR_STATE
      | Some p \<Rightarrow>
          if \<not> mainloop p then result CA_ERROR_STATE
          else if \<not> pcontext p then result CA_ERROR_STATE
          else
            bnd ca_new0 (\<lambda>a.
              case a of
                None \<Rightarrow> fail Assertion_Failed
              | Some a \<Rightarrow>
                  let out = (new_outstanding a)
                        \<lparr>otype := OUTSTANDING_UPLOAD, sink_input := PA_INVALID_INDEX\<rparr> in
                  bnd (convert_proplist proplist) (\<lambda>(ret, l).
                    if ret < 0 then cache_finish out ret
                    else case l of
                      None \<Rightarrow> fail Bad_Pointer
                    | Some l \<Rightarrow>
                        (case pa_proplist_gets l CA_PROP_EVENT_ID of
                           None \<Rightarrow> cache_finish out CA_ERROR_INVALID
                         | Some n \<Rightarrow>
                             bnd alloc (\<lambda>name.
                               if \<not> name then cache_finish out CA_ERROR_OOM
                               else
                                 let ct = pa_proplist_gets l CA_PROP_CANBERRA_CACHE_CONTROL;
                                     (ret, cache_control) =
                                       (case ct of
                                          None \<Rightarrow> (ret, CA_CACHE_CONTROL_NEVER)
                                        | Some s \<Rightarrow> ca_parse_cache_control CA_CACHE_CONTROL_NEVER s)
                                 in
                                 if ret < 0 then cache_finish out CA_ERROR_INVALID
                                 else if ptr_eq_int ct (cache_control_value CA_CACHE_CONTROL_NEVER)
                                   then cache_finish out CA_ERROR_INVALID
                                 else
                                   let l = strip_canberra_data l in
                                   bnd ca_lookup_sound (\<lambda>(ret, f).
                                     let out = out\<lparr>ofile := f\<rparr> in
                                     if ret < 0 then cache_finish out ret
                                     else case f of
                                       None \<Rightarrow> fail Bad_Pointer
                                     | Some sf \<Rightarrow>
                                         bnd (pa_stream_new_with_proplist n (nchannels sf mod 256, rate sf) l) (\<lambda>s.
                                           case s of
                                             Pa_fail e \<Rightarrow> bnd (translated (int e)) (cache_finish out)
                                           | Pa_ok s \<Rightarrow>
                                               let out = out\<lparr>stream := Some s\<rparr> in
                                               bnd (pa_stream_connect_upload s (fsize sf)) (\<lambda>r.
                                                 case r of
                                                   Pa_fail e \<Rightarrow> bnd (translated (int e)) (cache_finish out)
                                                 | Pa_ok _ \<Rightarrow>
                                                     bnd cache_wait (\<lambda>failed.
                                                       case failed of
                                                         Some ret \<Rightarrow> cache_finish out ret
                                                       | None \<Rightarrow> cache_finish out CA_SUCCESS))))))))))"

section \<open>Playing\<close>

text \<open>
  The local variables of \<^verbatim>\<open>driver_play\<close> that live across its phases, and whether a
  phase left for the label \<^verbatim>\<open>finish\<close>.
\<close>

text \<open>Whether \<^verbatim>\<open>strtod\<close> reads the string to its end without a range error.\<close>

definition strtod :: "string \<Rightarrow> bool run" where
  "strtod s w = (Returned (strtod_ok w s), w)"

record play_vars =
  pv_out :: outstanding
  pv_l :: "pa_proplist option"
  pv_name :: "string option"
  pv_cache_control :: ca_cache_control_t
  pv_ret :: int

datatype flow = Finish | Continue

text \<open>
  From \<^verbatim>\<open>convert_proplist\<close> to the call of \<^verbatim>\<open>subscribe\<close>. The volume is a floating-point
  number and is not part of the model: what counts is whether \<^verbatim>\<open>strtod\<close> accepts the
  string.
\<close>

definition play_setup ::
  "int \<Rightarrow> context_ptr \<Rightarrow> ca_proplist option \<Rightarrow> nat option \<Rightarrow> outstanding \<Rightarrow>
   (flow \<times> play_vars) run" where
  "play_setup ret0 c proplist cb out =
     bnd (convert_proplist proplist) (\<lambda>(ret, l).
       let v = \<lparr>pv_out = out, pv_l = l, pv_name = None,
                pv_cache_control = CA_CACHE_CONTROL_NEVER, pv_ret = ret\<rparr> in
       if ret < 0 then result (Finish, v)
       else case l of
         None \<Rightarrow> fail Bad_Pointer
       | Some l \<Rightarrow>
           (case pa_proplist_gets l CA_PROP_EVENT_ID of
              None \<Rightarrow> result (Finish, v\<lparr>pv_ret := CA_ERROR_INVALID\<rparr>)
            | Some n \<Rightarrow>
                bnd alloc (\<lambda>name.
                  if \<not> name then result (Finish, v\<lparr>pv_ret := CA_ERROR_OOM\<rparr>)
                  else
                    let v = v\<lparr>pv_name := Some n\<rparr> in
                    bnd (case pa_proplist_gets l CA_PROP_CANBERRA_VOLUME of
                           None \<Rightarrow> result True | Some vol \<Rightarrow> strtod vol) (\<lambda>parsed.
                      if \<not> parsed then result (Finish, v\<lparr>pv_ret := CA_ERROR_INVALID\<rparr>)
                      else
                        let (ret, cache_control) =
                              (case pa_proplist_gets l CA_PROP_CANBERRA_CACHE_CONTROL of
                                 None \<Rightarrow> (ret, CA_CACHE_CONTROL_NEVER)
                               | Some ct \<Rightarrow> ca_parse_cache_control CA_CACHE_CONTROL_NEVER ct)
                        in
                        if ret < 0 then result (Finish, v\<lparr>pv_ret := CA_ERROR_INVALID\<rparr>)
                        else
                          let v = v\<lparr>pv_ret := ret, pv_cache_control := cache_control,
                                    pv_l := Some (strip_canberra_data l)\<rparr> in
                          if cb \<noteq> None
                          then bnd (subscribe ret0 c) (\<lambda>ret.
                                 if ret < 0 then result (Finish, v\<lparr>pv_ret := ret\<rparr>)
                                 else result (Continue, v\<lparr>pv_ret := ret\<rparr>))
                          else result (Continue, v)))))"

text \<open>
  The retry loop. One turn: ask the server to play the sample and wait for the
  operation (\<^verbatim>\<open>play_sample_cb\<close> stores the result in \<open>out\<close>); leave for \<^verbatim>\<open>finish\<close>
  unless the stored error is \<^verbatim>\<open>CA_ERROR_NOTFOUND\<close>; leave the loop when the cache control
  is \<^verbatim>\<open>never\<close> or when \<^verbatim>\<open>--try <= 0\<close>; otherwise upload the sample with
  \<^verbatim>\<open>driver_cache\<close> and go round again.
\<close>

function play_loop ::
  "context_ptr \<Rightarrow> ca_proplist option \<Rightarrow> int \<Rightarrow> play_vars \<Rightarrow> (flow \<times> play_vars) run" where
  "play_loop c proplist try v =
     (case (pv_name v, pv_l v) of
        (Some name, Some l) \<Rightarrow>
          bnd (pa_context_play_sample_with_proplist name l) (\<lambda>o'.
            case o' of
              Play_refused e \<Rightarrow>
                bnd (translated (int e)) (\<lambda>ret. result (Finish, v\<lparr>pv_ret := ret\<rparr>))
            | Play_never \<Rightarrow> fail Blocked
            | Play_done idx errno \<Rightarrow>
                bnd (play_sample_cb idx errno (pv_out v)) (\<lambda>out.
                  if oerror out \<noteq> CA_ERROR_NOTFOUND then result (Finish, v\<lparr>pv_out := out\<rparr>)
                  else if pv_cache_control v = CA_CACHE_CONTROL_NEVER
                    then result (Continue, v\<lparr>pv_out := out\<rparr>)
                  else if try - 1 \<le> 0 then result (Continue, v\<lparr>pv_out := out\<rparr>)
                  else
                    bnd (driver_cache c proplist) (\<lambda>ret.
                      if ret < 0 then result (Finish, v\<lparr>pv_out := out, pv_ret := ret\<rparr>)
                      else play_loop c proplist (try - 1) (v\<lparr>pv_out := out, pv_ret := ret\<rparr>))))
      | _ \<Rightarrow> fail Bad_Pointer)"
  by pat_completeness auto
termination
  by (relation "measure (\<lambda>(c, proplist, try, v). nat try)") auto

text \<open>
  The wait loop of the direct stream: \<^verbatim>\<open>PA_STREAM_READY\<close> ends it (\<open>None\<close>),
  \<^verbatim>\<open>PA_STREAM_FAILED\<close> leaves for \<^verbatim>\<open>finish\<close> with the translated error and
  \<^verbatim>\<open>PA_STREAM_TERMINATED\<close> with \<^verbatim>\<open>out->error\<close>.
\<close>

function play_wait :: "outstanding \<Rightarrow> (int option \<times> outstanding) run" where
  "play_wait out w =
     (case wakeup_r w of
        [] \<Rightarrow> (Fault Blocked, w)
      | u # us \<Rightarrow>
          let out' = (case seen_error u of None \<Rightarrow> out | Some e \<Rightarrow> out\<lparr>oerror := e\<rparr>) in
          if seen_state u = PA_STREAM_READY then (Returned (None, out'), w\<lparr>wakeup_r := us\<rparr>)
          else if seen_state u = PA_STREAM_FAILED then
            (case translate_error (pa_err_max w) (int (seen_errno u)) of
               Fault f \<Rightarrow> (Fault f, w\<lparr>wakeup_r := us\<rparr>)
             | Returned ret \<Rightarrow> (Returned (Some ret, out'), w\<lparr>wakeup_r := us\<rparr>))
          else if seen_state u = PA_STREAM_TERMINATED
            then (Returned (Some (oerror out'), out'), w\<lparr>wakeup_r := us\<rparr>)
          else play_wait out' (w\<lparr>wakeup_r := us\<rparr>))"
  by pat_completeness auto
termination
  by (relation "measure (\<lambda>(out, w). length (wakeup_r w))") auto

text \<open>Streaming the sound directly, from \<^verbatim>\<open>out->type = OUTSTANDING_STREAM\<close> to \<^verbatim>\<open>finish\<close>.\<close>

definition play_stream :: "play_vars \<Rightarrow> play_vars run" where
  "play_stream v0 =
     (let v = v0\<lparr>pv_out := (pv_out v0)\<lparr>otype := OUTSTANDING_STREAM\<rparr>\<rparr> in
      bnd ca_lookup_sound (\<lambda>(ret, f).
        let v = v\<lparr>pv_out := (pv_out v)\<lparr>ofile := f\<rparr>, pv_ret := ret\<rparr> in
        if ret < 0 then result v
        else case (f, pv_name v, pv_l v) of
          (Some sf, Some name, Some l) \<Rightarrow>
            bnd (pa_stream_new_with_proplist name (nchannels sf mod 256, rate sf) l) (\<lambda>s.
              case s of
                Pa_fail e \<Rightarrow> bnd (translated (int e)) (\<lambda>ret. result (v\<lparr>pv_ret := ret\<rparr>))
              | Pa_ok s \<Rightarrow>
                  let v = v\<lparr>pv_out := (pv_out v)\<lparr>stream := Some s\<rparr>\<rparr> in
                  bnd (pa_stream_connect_playback s) (\<lambda>r.
                    case r of
                      Pa_fail e \<Rightarrow> bnd (translated (int e)) (\<lambda>ret. result (v\<lparr>pv_ret := ret\<rparr>))
                    | Pa_ok _ \<Rightarrow>
                        bnd (play_wait (pv_out v)) (\<lambda>(failed, out).
                          let v = v\<lparr>pv_out := out\<rparr> in
                          case failed of
                            Some ret \<Rightarrow> result (v\<lparr>pv_ret := ret\<rparr>)
                          | None \<Rightarrow>
                              bnd pa_stream_get_index (\<lambda>(idx, errno).
                                let v = v\<lparr>pv_out := (pv_out v)\<lparr>sink_input := idx\<rparr>\<rparr> in
                                if idx = PA_INVALID_INDEX
                                then bnd (translated (int errno)) (\<lambda>ret. result (v\<lparr>pv_ret := ret\<rparr>))
                                else result (v\<lparr>pv_ret := CA_SUCCESS\<rparr>)))))
        | _ \<Rightarrow> fail Bad_Pointer))"

text \<open>
  The label \<^verbatim>\<open>finish\<close> of \<^verbatim>\<open>driver_play\<close>: the request is kept and linked into the
  registry when \<open>ret\<close> is \<^verbatim>\<open>CA_SUCCESS\<close> and the request is a stream or has a callback,
  and freed otherwise.
\<close>

definition play_finish :: "nat option \<Rightarrow> play_vars \<Rightarrow> int run" where
  "play_finish cb v =
     (if pv_ret v = CA_SUCCESS \<and> (otype (pv_out v) = OUTSTANDING_STREAM \<or> cb \<noteq> None)
      then bnd (prepend_outstanding ((pv_out v)\<lparr>clean_up := True\<rparr>)) (\<lambda>_. result (pv_ret v))
      else bnd (do_free (pv_out v)) (\<lambda>_. result (pv_ret v)))"

text \<open>
  \<^verbatim>\<open>driver_play\<close>; \<open>ret0\<close> is the indeterminate value of \<^verbatim>\<open>subscribe\<close>'s local. When
  \<^verbatim>\<open>ca_new0\<close> fails, the code goes to \<^verbatim>\<open>finish\<close> with a null \<open>out\<close>, where
  \<^verbatim>\<open>outstanding_free\<close> asserts that its argument is not null.
\<close>

definition driver_play ::
  "int \<Rightarrow> context_ptr \<Rightarrow> 32 word \<Rightarrow> ca_proplist option \<Rightarrow> nat option \<Rightarrow> nat option \<Rightarrow> int run" where
  "driver_play ret0 c id' proplist cb userdata' =
     (if c = Null then result CA_ERROR_INVALID
      else if proplist = None then result CA_ERROR_INVALID
      else if \<not> (userdata' = None \<or> cb \<noteq> None) then result CA_ERROR_INVALID
      else bnd get_priv (\<lambda>p.
        case p of
        None \<Rightarrow> result CA_ERROR_STATE
      | Some p \<Rightarrow>
          if \<not> mainloop p then result CA_ERROR_STATE
          else if \<not> pcontext p then result CA_ERROR_STATE
          else
            bnd ca_new0 (\<lambda>a.
              case a of
                None \<Rightarrow> fail Assertion_Failed
              | Some a \<Rightarrow>
                  let out = (new_outstanding a)
                        \<lparr>otype := OUTSTANDING_SAMPLE, sink_input := PA_INVALID_INDEX,
                         oid := id', callback := cb, userdata := userdata'\<rparr> in
                  bnd (play_setup ret0 c proplist cb out) (\<lambda>(fl, v).
                    if fl = Finish then play_finish cb v
                    else
                      bnd (play_loop c proplist 3 v) (\<lambda>(fl, v).
                        if fl = Finish then play_finish cb v
                        else bnd (play_stream v) (play_finish cb))))))"

declare destroy_loop.simps [simp del] state_cb_loop.simps [simp del] cache_wait.simps [simp del]
  play_loop.simps [simp del] play_wait.simps [simp del]

section \<open>Reading the trace\<close>

text \<open>The play attempts, the uploads and the direct streams of a trace.\<close>

definition is_play_sample :: "event \<Rightarrow> bool" where
  "is_play_sample e = (case e of Ev_play_sample n l \<Rightarrow> True | _ \<Rightarrow> False)"

definition is_connect_upload :: "event \<Rightarrow> bool" where
  "is_connect_upload e = (case e of Ev_connect_upload s n \<Rightarrow> True | _ \<Rightarrow> False)"

definition is_connect_playback :: "event \<Rightarrow> bool" where
  "is_connect_playback e = (case e of Ev_connect_playback s \<Rightarrow> True | _ \<Rightarrow> False)"

definition count_events :: "(event \<Rightarrow> bool) \<Rightarrow> world \<Rightarrow> nat" where
  "count_events P w = length (filter P (log w))"

text \<open>The callbacks of a trace (callback, id, error, user data) and the structs it frees.\<close>

definition callbacks_of :: "event list \<Rightarrow> (nat \<times> 32 word \<times> int \<times> nat option) list" where
  "callbacks_of es =
     concat (map (\<lambda>e. case e of Ev_callback cb i err u seen \<Rightarrow> [(cb, i, err, u)] | _ \<Rightarrow> []) es)"

definition frees_of :: "event list \<Rightarrow> nat list" where
  "frees_of es = concat (map (\<lambda>e. case e of Ev_free a \<Rightarrow> [a] | _ \<Rightarrow> []) es)"

text \<open>The callback that a request is owed when it completes with \<open>err\<close>.\<close>

definition owed_callback :: "int \<Rightarrow> outstanding \<Rightarrow> (nat \<times> 32 word \<times> int \<times> nat option) list" where
  "owed_callback err out =
     (case callback out of None \<Rightarrow> [] | Some cb \<Rightarrow> [(cb, oid out, err, userdata out)])"

text \<open>
  What the loops of \<^verbatim>\<open>driver_destroy\<close> and \<^verbatim>\<open>context_state_cb\<close> add to the trace for a
  registry: each request's callback sees the requests behind it, and not itself.
\<close>

fun drained_trace :: "int \<Rightarrow> outstanding list \<Rightarrow> event list" where
  "drained_trace err [] = []"
| "drained_trace err (out # rest) =
     callback_events out err (map addr rest) @ free_events out @ drained_trace err rest"

text \<open>
  A run keeps a count of events between bounds: from at most \<open>a\<close> events that satisfy
  \<open>P\<close> it leads to at most \<open>b\<close>, whether it returns or not. A silent run adds nothing
  to the trace.
\<close>

definition hoare :: "(event \<Rightarrow> bool) \<Rightarrow> nat \<Rightarrow> 'a run \<Rightarrow> nat \<Rightarrow> bool" where
  "hoare P a m b \<longleftrightarrow>
     a \<le> b \<and> (\<forall>w. count_events P w \<le> a \<longrightarrow> count_events P (snd (m w)) \<le> b)"

definition silent :: "'a run \<Rightarrow> bool" where
  "silent m \<longleftrightarrow> (\<forall>w. log (snd (m w)) = log w)"

section \<open>Example worlds\<close>

text \<open>
  A connected context with an empty registry, built against a PulseAudio whose
  \<^verbatim>\<open>PA_ERR_MAX\<close> is 21: past the 19 codes that the translation table names, the library
  defines \<^verbatim>\<open>PA_ERR_NOTSUPPORTED\<close> and \<^verbatim>\<open>PA_ERR_UNKNOWN\<close> (later versions define more).
  The scripts are empty; each example adds the answers it needs.
\<close>

definition ready_world :: world where
  "ready_world =
     \<lparr>priv = Some \<lparr>mainloop = True, pcontext = True, theme = False, subscribed = False,
                   outstanding_mutex = True, outstanding = []\<rparr>,
      unlinked = [], log = [], next_addr = 1, pa_err_max = 21,
      key_valid = (\<lambda>key. key \<noteq> []), strtod_ok = (\<lambda>s. s \<noteq> ''abc''),
      alloc_r = [], subscribe_r = [], play_sample_r = [], kill_r = [], lookup_r = [],
      stream_new_r = [], connect_r = [], wakeup_r = [], get_index_r = [], read_r = [],
      write_r = [], finish_upload_r = [], drain_r = []\<rparr>"

text \<open>
  The private data of a connected and subscribed context with the registry \<open>reg\<close>.
\<close>

definition registry_of :: "outstanding list \<Rightarrow> private_data" where
  "registry_of reg =
     \<lparr>mainloop = True, pcontext = True, theme = False, subscribed = True,
      outstanding_mutex = True, outstanding = reg\<rparr>"

text \<open>
  A registry with one request that the server tracks: a named sample with id 3, sink
  input 5, callback 9, at address 1, as \<^verbatim>\<open>driver_play\<close> links it.
\<close>

definition tracked_request :: outstanding where
  "tracked_request =
     (new_outstanding 1)\<lparr>oid := 3, sink_input := 5, callback := Some 9, clean_up := True\<rparr>"

definition tracked_world :: world where
  "tracked_world = ready_world\<lparr>priv := Some (registry_of [tracked_request]), next_addr := 2\<rparr>"

text \<open>
  A registry with two requests of the same id, the first with a callback and the second
  without, and a registry with a request that streams a file.
\<close>

definition silent_request :: outstanding where
  "silent_request = (new_outstanding 2)\<lparr>oid := 3, sink_input := 6, clean_up := True\<rparr>"

definition streaming_request :: outstanding where
  "streaming_request =
     (new_outstanding 1)\<lparr>otype := OUTSTANDING_STREAM, oid := 3, sink_input := 5,
        stream := Some 100, callback := Some 9,
        ofile := Some \<lparr>nchannels = 2, rate = 44100, fsize = 1000\<rparr>, clean_up := True\<rparr>"

definition two_world :: world where
  "two_world =
     ready_world\<lparr>priv := Some (registry_of [tracked_request, silent_request]), next_addr := 3\<rparr>"

definition streaming_world :: world where
  "streaming_world =
     ready_world\<lparr>priv := Some (registry_of [streaming_request]), next_addr := 2\<rparr>"

text \<open>
  The properties of a request for the event "bell", with a cache control or without, and
  the answers of a library and a server with which every allocation, lookup, stream and
  upload succeeds.
\<close>

definition bell :: "string \<Rightarrow> ca_proplist option" where
  "bell cache_control =
     Some [(''event.id'', ''bell''), (''canberra.cache-control'', cache_control)]"

definition bell_file :: sound_file where
  "bell_file = \<lparr>nchannels = 2, rate = 44100, fsize = 1000\<rparr>"

definition uploaded :: wakeup where
  "uploaded = \<lparr>seen_state = PA_STREAM_TERMINATED, seen_errno = 0, seen_error = None\<rparr>"

definition stream_ready :: wakeup where
  "stream_ready = \<lparr>seen_state = PA_STREAM_READY, seen_errno = 0, seen_error = None\<rparr>"

definition willing_world :: world where
  "willing_world =
     ready_world\<lparr>priv := Some (registry_of []),
                 alloc_r := [True, True, True, True, True, True, True, True, True],
                 lookup_r := [(0, Some bell_file), (0, Some bell_file), (0, Some bell_file)],
                 stream_new_r := [Pa_ok 100, Pa_ok 101, Pa_ok 102],
                 connect_r := [Pa_ok (), Pa_ok (), Pa_ok ()]\<rparr>"

text \<open>
  The server does not have the sample: the play operation completes without a sink input.
  In \<open>never_found_world\<close> that is its answer to every attempt, each upload stream
  becomes ready and then terminates, and the direct stream becomes ready with sink input
  8; in \<open>third_time_world\<close> the context is not subscribed yet, the server accepts the
  subscription, and the third attempt plays on sink input 7.
\<close>

definition not_found :: play_answer where
  "not_found = Play_done PA_INVALID_INDEX PA_ERR_NOENTITY"

definition never_found_world :: world where
  "never_found_world =
     willing_world\<lparr>play_sample_r := [not_found, not_found, not_found, not_found],
                   wakeup_r := [stream_ready, uploaded, stream_ready, uploaded, stream_ready],
                   get_index_r := [(8, 0)]\<rparr>"

definition third_time_world :: world where
  "third_time_world =
     willing_world\<lparr>priv := Some ((registry_of [])\<lparr>subscribed := False\<rparr>),
                   subscribe_r := [Pa_ok ()],
                   play_sample_r := [not_found, not_found, Play_done 7 PA_OK],
                   wakeup_r := [uploaded, uploaded]\<rparr>"

text \<open>
  The server does not have the sample and the first upload fails: the upload stream
  fails with \<^verbatim>\<open>PA_ERR_TOOLARGE\<close>. In \<open>unnamed_error_world\<close> the server has the sample
  at the third attempt, and before that the library refuses both upload streams with
  \<^verbatim>\<open>PA_ERR_NOTSUPPORTED\<close>, a code that the translation table does not name.
\<close>

definition upload_failed :: wakeup where
  "upload_failed =
     \<lparr>seen_state = PA_STREAM_FAILED, seen_errno = PA_ERR_TOOLARGE, seen_error = None\<rparr>"

definition upload_fails_world :: world where
  "upload_fails_world =
     willing_world\<lparr>play_sample_r := [not_found, not_found, not_found],
                   wakeup_r := [upload_failed]\<rparr>"

definition unnamed_error_world :: world where
  "unnamed_error_world =
     willing_world\<lparr>play_sample_r := [not_found, not_found, Play_done 7 PA_OK],
                   stream_new_r := [Pa_fail PA_ERR_NOTSUPPORTED, Pa_fail PA_ERR_NOTSUPPORTED]\<rparr>"

text \<open>The play attempts, uploads and direct streams of a trace, in their order.\<close>

definition retries :: "event list \<Rightarrow> event list" where
  "retries es =
     filter (\<lambda>e. is_play_sample e \<or> is_connect_upload e \<or> is_connect_playback e) es"

text \<open>
  A wake-up that leaves the wait loop of \<^verbatim>\<open>driver_cache\<close> waiting: the upload stream is
  neither terminated nor failed.
\<close>

definition waiting :: "wakeup \<Rightarrow> bool" where
  "waiting u \<longleftrightarrow> seen_state u \<noteq> PA_STREAM_TERMINATED \<and> seen_state u \<noteq> PA_STREAM_FAILED"

text \<open>
  What an upload that succeeds adds to the trace, for the event name \<open>n\<close>, the server
  properties \<open>l\<close>, the file \<open>f\<close>, the stream \<open>s\<close> and the request at address \<open>a\<close>:
  the sound is looked up, the stream is created and connected for upload, and the
  request is freed with its file and stream. Three play attempts with an upload after
  the first and after the second are \<open>retry_events\<close>; the requests of the uploads are
  allocated after the request of the play, which is at address \<open>a\<close>.
\<close>

definition upload_events ::
  "string \<Rightarrow> pa_proplist \<Rightarrow> sound_file \<Rightarrow> nat \<Rightarrow> nat \<Rightarrow> event list" where
  "upload_events n l f s a =
     [Ev_lookup_sound, Ev_stream_new n (nchannels f mod 256, rate f) l,
      Ev_connect_upload s (fsize f), Ev_sound_file_close, Ev_stream_disconnect s, Ev_free a]"

definition retry_events ::
  "string \<Rightarrow> pa_proplist \<Rightarrow> sound_file \<Rightarrow> nat \<Rightarrow> sound_file \<Rightarrow> nat \<Rightarrow> nat \<Rightarrow> event list" where
  "retry_events n l f1 s1 f2 s2 a =
     Ev_play_sample n l # upload_events n l f1 s1 (a + 1)
     @ Ev_play_sample n l # upload_events n l f2 s2 (a + 2)
     @ [Ev_play_sample n l]"

text \<open>
  The world after the subscription step of \<open>driver_play\<close>, when there is a callback, the
  context is not subscribed yet and the server accepts the subscription: the request is
  in the trace and the flag is set. In the other cases the step leaves the world as it
  is.
\<close>

definition play_subscribed :: "nat option \<Rightarrow> world \<Rightarrow> world" where
  "play_subscribed cb w =
     (case priv w of
        None \<Rightarrow> w
      | Some p \<Rightarrow>
          if cb = None \<or> subscribed p then w
          else w\<lparr>priv := Some (p\<lparr>subscribed := True\<rparr>),
                 log := log w @ [Ev_context_subscribe],
                 subscribe_r := tl (subscribe_r w)\<rparr>)"

text \<open>
  A request that \<^verbatim>\<open>driver_cache\<close> has allocated and not linked, whose upload stream is
  connected: what the stream callbacks of an upload are handed.
\<close>

definition uploading_request :: outstanding where
  "uploading_request =
     (new_outstanding 1)\<lparr>otype := OUTSTANDING_UPLOAD, sink_input := PA_INVALID_INDEX,
        stream := Some 100, ofile := Some bell_file\<rparr>"

definition uploading_world :: world where
  "uploading_world = ready_world\<lparr>unlinked := [uploading_request], next_addr := 2\<rparr>"


section \<open>The error translator: codes beyond the table, unnamed codes\<close>

lemma translate_error_returns: "0 \<le> e \<Longrightarrow> \<exists>r. translate_error m e = Returned r"
  by (simp add: translate_error_def)

lemma translate_error_beyond: "int m \<le> e \<Longrightarrow> translate_error m e = Returned CA_ERROR_IO"
  by (simp add: translate_error_def)

lemma translate_error_unnamed:
  "int PA_ERR_TOOLARGE < e \<Longrightarrow> e < int m \<Longrightarrow> translate_error m e = Returned CA_SUCCESS"
  by (simp add: translate_error_def table_def)

lemma translate_error_noentity:
  "PA_ERR_NOENTITY < m \<Longrightarrow> translate_error m (int PA_ERR_NOENTITY) = Returned CA_ERROR_NOTFOUND"
  by (simp add: translate_error_def table_def)

text \<open>
  C6. The claim: every code at or beyond the end of the server's range, and every code
  within the range that has no explicit mapping, maps to the generic I/O error. The
  first half holds (\<open>translate_error_beyond\<close>). For the second half the code does
  something else: an element of the table that no designator names is 0, which is
  \<^verbatim>\<open>CA_SUCCESS\<close>. With a \<^verbatim>\<open>PA_ERR_MAX\<close> of 21, the code 19 (\<^verbatim>\<open>PA_ERR_NOTSUPPORTED\<close>) is
  within the range and unnamed, and it is translated to success, not to the I/O error.
\<close>

theorem translate_error_unnamed_is_success:
  "translate_error 21 (int PA_ERR_NOTSUPPORTED) = Returned CA_SUCCESS
   \<and> translate_error 21 (int PA_ERR_UNKNOWN) = Returned CA_SUCCESS
   \<and> CA_SUCCESS \<noteq> CA_ERROR_IO"
  by (simp add: translate_error_unnamed)

section \<open>Stripping the internal keys\<close>

lemma strncmp_whole: "length s2 < n \<Longrightarrow> (strncmp s1 s2 n = 0) = (s1 = s2)"
  by (induction s1 s2 n rule: strncmp.induct) auto

lemma strncmp_canberra: "(strncmp key ''canberra.'' 12 = 0) = (key = ''canberra.'')"
  by (rule strncmp_whole) simp

lemma strip_loop_filter:
  "strip_loop keys l =
     (if ''canberra.'' \<in> set keys then filter (\<lambda>kv. fst kv \<noteq> ''canberra.'') l else l)"
  by (induction keys arbitrary: l) (auto simp: strncmp_canberra pa_proplist_unset_def)

text \<open>What the code strips is the key that is equal to the prefix, and no other key.\<close>

lemma strip_canberra_data_filter:
  "strip_canberra_data l = filter (\<lambda>kv. fst kv \<noteq> ''canberra.'') l"
proof (cases "''canberra.'' \<in> set (map fst l)")
  case True
  then show ?thesis by (simp add: strip_canberra_data_def strip_loop_filter)
next
  case False
  then have "filter (\<lambda>kv. fst kv \<noteq> ''canberra.'') l = l"
    by (force simp: filter_id_conv)
  with False show ?thesis by (simp add: strip_canberra_data_def strip_loop_filter)
qed

text \<open>
  C2. The claim: \<open>strip_canberra_data\<close> removes every key that begins with the prefix
  \<^verbatim>\<open>canberra.\<close>, so a property list of internal keys only is stripped to the empty list.
  The code compares 12 characters with a prefix of 9, so the comparison runs to the end
  of the prefix string and succeeds for the key \<^verbatim>\<open>canberra.\<close> alone. The list that holds
  only \<^verbatim>\<open>canberra.volume\<close> and \<^verbatim>\<open>canberra.cache-control\<close> is returned as it is.
\<close>

theorem strip_canberra_data_keeps_internal_keys:
  "strip_canberra_data [(''canberra.volume'', ''-3''), (''canberra.cache-control'', ''never'')]
   = [(''canberra.volume'', ''-3''), (''canberra.cache-control'', ''never'')]"
  by (simp add: strip_canberra_data_filter)

section \<open>The state monad\<close>

lemma bnd_result [simp]: "bnd (result x) k = k x"
  by (rule ext) (simp add: bnd_def result_def)

lemma bnd_fail [simp]: "bnd (fail f) k = fail f"
  by (rule ext) (simp add: bnd_def fail_def)

text \<open>The definitions of the model that an evaluation on an example world unfolds.\<close>

lemmas eval_defs =
  Let_def bnd_def result_def fail_def lift_def emit_def pop_def get_priv_def translated_def
  translate_error_def table_def alloc_def ca_new0_def pa_context_subscribe_def
  pa_context_play_sample_with_proplist_def pa_context_kill_sink_input_def ca_lookup_sound_def
  pa_stream_new_with_proplist_def pa_stream_connect_playback_def pa_stream_connect_upload_def
  pa_stream_get_index_def ca_sound_file_read_arbitrary_def pa_stream_write_def
  pa_stream_finish_upload_def pa_stream_drain_def linked_def callback_events_def
  call_callback_def free_events_def outstanding_free_def set_outstanding_def
  remove_outstanding_def prepend_outstanding_def do_callback_def do_free_def
  find_outstanding_def update_outstanding_def set_subscribed_def strtod_def
  new_outstanding_def

section \<open>Playing: user data without a callback\<close>

text \<open>
  C10. A call of \<open>driver_play\<close> with user data and without a callback returns
  \<^verbatim>\<open>CA_ERROR_INVALID\<close> and leaves the world as it is: no request is allocated, the trace
  and the scripts are untouched.
\<close>

theorem driver_play_userdata_without_callback:
  "userdata' \<noteq> None \<Longrightarrow>
   driver_play ret0 c id' proplist None userdata' w = (Returned CA_ERROR_INVALID, w)"
  by (simp add: driver_play_def result_def)

theorem driver_play_userdata_without_callback_witness:
  "Some (7 :: nat) \<noteq> None
   \<and> driver_play 0 Context 3 (bell ''volatile'') None (Some 7) willing_world
       = (Returned CA_ERROR_INVALID, willing_world)"
  using driver_play_userdata_without_callback [of "Some 7" 0 Context 3 "bell ''volatile''" willing_world]
  by simp

section \<open>Subscribing\<close>

text \<open>A context that is subscribed stays so, and a second call asks the server nothing.\<close>

lemma subscribe_again:
  "priv w = Some p \<Longrightarrow> mainloop p \<Longrightarrow> pcontext p \<Longrightarrow> subscribed p \<Longrightarrow>
   subscribe ret0 Context w = (Returned CA_SUCCESS, w)"
  by (simp add: subscribe_def bnd_def get_priv_def result_def)

lemma subscribe_sets_flag:
  "priv w = Some p \<Longrightarrow> mainloop p \<Longrightarrow> pcontext p \<Longrightarrow>
   subscribe ret0 Context w = (Returned r, w') \<Longrightarrow> \<exists>p'. priv w' = Some p' \<and> subscribed p'"
  by (auto simp: subscribe_def bnd_def get_priv_def result_def pa_context_subscribe_def emit_def
        pop_def translated_def set_subscribed_def
      split: if_splits list.splits pa_answer.splits outcome.splits)

text \<open>
  C9. The claim: the first call issues the subscription and returns success when issuing
  succeeds. The code returns its local \<^verbatim>\<open>ret\<close>, which it has not assigned on that path:
  the first call on a connected context, answered with an operation by the server,
  returns whatever value \<open>j\<close> the variable holds. The rest of the claim holds
  (\<open>subscribe_again\<close>, \<open>subscribe_sets_flag\<close>).
\<close>

theorem subscribe_returns_uninitialised:
  "fst (subscribe j Context (ready_world\<lparr>subscribe_r := [Pa_ok ()]\<rparr>)) = Returned j
   \<and> log (snd (subscribe j Context (ready_world\<lparr>subscribe_r := [Pa_ok ()]\<rparr>)))
       = [Ev_context_subscribe]"
  by (simp add: subscribe_def ready_world_def eval_defs)

section \<open>Cancelling\<close>

lemma cancel_loop_untracked:
  "list_all (\<lambda>out. otype out = OUTSTANDING_UPLOAD \<or> oid out \<noteq> id'
               \<or> sink_input out = PA_INVALID_INDEX) reg \<Longrightarrow>
   cancel_loop ret2_0 id' i reg ret w = (Returned ret, w)"
  by (induction reg arbitrary: i) (simp_all add: result_def)

text \<open>
  When no request of the registry is a server-tracked request with the id, \<open>driver_cancel\<close>
  returns success and leaves the world as it is: no callback is called.
\<close>

lemma driver_cancel_untracked:
  "priv w = Some p \<Longrightarrow> mainloop p \<Longrightarrow> pcontext p \<Longrightarrow>
   list_all (\<lambda>out. otype out = OUTSTANDING_UPLOAD \<or> oid out \<noteq> id'
               \<or> sink_input out = PA_INVALID_INDEX) (outstanding p) \<Longrightarrow>
   driver_cancel ret2_0 Context id' w = (Returned CA_SUCCESS, w)"
  by (simp add: driver_cancel_def bnd_def get_priv_def cancel_loop_untracked)

text \<open>
  Every request with the id is killed, called back and freed, also after a kill that
  failed; when every kill fails, the error of the first is what is returned.
\<close>

lemma driver_cancel_all_matches:
  "fst (driver_cancel ret2_0 Context 3 (two_world\<lparr>kill_r := [Pa_fail PA_ERR_ACCESS, Pa_fail PA_ERR_INVALID]\<rparr>))
     = Returned CA_ERROR_ACCESS
   \<and> log (snd (driver_cancel ret2_0 Context 3
        (two_world\<lparr>kill_r := [Pa_fail PA_ERR_ACCESS, Pa_fail PA_ERR_INVALID]\<rparr>)))
     = [Ev_kill_sink_input 5, Ev_callback 9 3 CA_ERROR_CANCELED None [1, 2], Ev_free 1,
        Ev_kill_sink_input 6, Ev_free 2]
   \<and> linked (snd (driver_cancel ret2_0 Context 3
        (two_world\<lparr>kill_r := [Pa_fail PA_ERR_ACCESS, Pa_fail PA_ERR_INVALID]\<rparr>))) = []"
  by (simp add: driver_cancel_def two_world_def ready_world_def registry_of_def
        tracked_request_def silent_request_def eval_defs)

text \<open>
  After a kill that succeeded, the result is the value \<open>j\<close> that the unassigned
  \<^verbatim>\<open>ret2\<close> holds, unless that is 0: the error of a kill that fails later is returned
  only then.
\<close>

lemma driver_cancel_success_then_failure:
  "fst (driver_cancel (\<lambda>i. j) Context 3 (two_world\<lparr>kill_r := [Pa_ok (), Pa_fail PA_ERR_ACCESS]\<rparr>))
     = Returned (if j = 0 then CA_ERROR_ACCESS else j)"
  by (simp add: driver_cancel_def two_world_def ready_world_def registry_of_def
        tracked_request_def silent_request_def eval_defs)

text \<open>
  C7. The claim: \<open>driver_cancel\<close> returns success when no kill fails. The code folds
  its local \<^verbatim>\<open>ret2\<close> into the result after every kill and assigns \<^verbatim>\<open>ret2\<close> only when
  the kill fails. With one tracked request whose kill succeeds, it returns whatever
  value \<open>j\<close> the unassigned variable holds. Of the rest of the claim, this holds:
  every match is processed, also after a failed kill (\<open>driver_cancel_all_matches\<close>), and
  a request that is not tracked is left alone (\<open>driver_cancel_untracked\<close>).
\<close>

theorem driver_cancel_returns_uninitialised:
  "fst (driver_cancel (\<lambda>i. j) Context 3 (tracked_world\<lparr>kill_r := [Pa_ok ()]\<rparr>)) = Returned j"
  by (simp add: driver_cancel_def tracked_world_def ready_world_def registry_of_def
        tracked_request_def eval_defs)

section \<open>Unlinking and calling back\<close>

text \<open>
  The paths that complete the request of \<open>tracked_world\<close> or of \<open>streaming_world\<close>,
  which is at address 1. In the trace of each path but one, the callback sees an empty
  registry: the request was taken out of the list before.
\<close>

lemma driver_destroy_unlinks_first:
  "log (snd (driver_destroy Context tracked_world))
   = [Ev_mainloop_stop, Ev_callback 9 3 CA_ERROR_DESTROYED None [], Ev_free 1,
      Ev_context_disconnect, Ev_mainloop_free]"
  by (simp add: driver_destroy_def destroy_loop.simps tracked_world_def ready_world_def
        registry_of_def tracked_request_def eval_defs)

lemma context_state_cb_unlinks_first:
  "log (snd (context_state_cb PA_CONTEXT_FAILED PA_ERR_CONNECTIONTERMINATED tracked_world))
   = [Ev_callback 9 3 CA_ERROR_IO None [], Ev_free 1]"
  by (simp add: context_state_cb_def state_cb_loop.simps tracked_world_def ready_world_def
        registry_of_def tracked_request_def eval_defs)

lemma context_subscribe_cb_unlinks_first:
  "log (snd (context_subscribe_cb
               (PA_SUBSCRIPTION_EVENT_SINK_INPUT OR PA_SUBSCRIPTION_EVENT_REMOVE) 5 tracked_world))
   = [Ev_callback 9 3 CA_SUCCESS None [], Ev_free 1]"
  by (simp add: context_subscribe_cb_def tracked_world_def ready_world_def registry_of_def
        tracked_request_def eval_defs)

lemma stream_state_cb_unlinks_first:
  "log (snd (stream_state_cb 1 PA_STREAM_FAILED PA_ERR_TIMEOUT streaming_world))
   = [Ev_callback 9 3 CA_ERROR_IO None [], Ev_sound_file_close,
      Ev_stream_disconnect 100, Ev_free 1]"
  by (simp add: stream_state_cb_def streaming_world_def ready_world_def registry_of_def
        streaming_request_def eval_defs)

lemma stream_drain_cb_unlinks_first:
  "log (snd (stream_drain_cb 1 1 PA_OK streaming_world))
   = [Ev_callback 9 3 CA_SUCCESS None [], Ev_sound_file_close,
      Ev_stream_disconnect 100, Ev_free 1]"
  by (simp add: stream_drain_cb_def streaming_world_def ready_world_def registry_of_def
        streaming_request_def eval_defs)

lemma stream_write_cb_unlinks_first:
  "log (snd (stream_write_cb 1 100 4096
        (streaming_world\<lparr>alloc_r := [True], read_r := [(CA_ERROR_IO, 0)]\<rparr>)))
   = [Ev_callback 9 3 CA_ERROR_IO None [], Ev_sound_file_close,
      Ev_stream_disconnect 100, Ev_free 1]"
  by (simp add: stream_write_cb_def write_finish_def streaming_world_def ready_world_def
        registry_of_def streaming_request_def eval_defs)

text \<open>
  A stream callback may also be handed a request that is not linked: the request of an
  upload that \<^verbatim>\<open>driver_cache\<close> waits for, whose \<^verbatim>\<open>clean_up\<close> is not set. The state
  callback leaves it alone, and the write callback disconnects the stream and stores the
  error in the request; neither calls a callback or frees the request.
\<close>

lemma stream_state_cb_waiting_request:
  "stream_state_cb 1 PA_STREAM_FAILED PA_ERR_TIMEOUT uploading_world
     = (Returned (), uploading_world)"
  by (simp add: stream_state_cb_def uploading_world_def ready_world_def uploading_request_def
        eval_defs)

lemma stream_write_cb_waiting_request:
  "log (snd (stream_write_cb 1 100 4096
          (uploading_world\<lparr>alloc_r := [True], read_r := [(CA_ERROR_IO, 0)]\<rparr>)))
     = [Ev_stream_disconnect 100]
   \<and> unlinked (snd (stream_write_cb 1 100 4096
          (uploading_world\<lparr>alloc_r := [True], read_r := [(CA_ERROR_IO, 0)]\<rparr>)))
     = [uploading_request\<lparr>oerror := CA_ERROR_IO\<rparr>]"
  by (simp add: stream_write_cb_def write_finish_def uploading_world_def ready_world_def
        uploading_request_def eval_defs)

text \<open>
  C1. The claim: on every completion path, explicit cancel included, the request is
  unlinked before its callback is called. In \<open>driver_cancel\<close> the callback is called
  first and \<^verbatim>\<open>CA_LLIST_REMOVE\<close> comes after it: the callback of the request at address 1
  runs while the registry still holds address 1.
\<close>

theorem driver_cancel_calls_back_while_linked:
  "log (snd (driver_cancel ret2_0 Context 3 (tracked_world\<lparr>kill_r := [Pa_ok ()]\<rparr>)))
   = [Ev_kill_sink_input 5, Ev_callback 9 3 CA_ERROR_CANCELED None [1], Ev_free 1]
   \<and> addr tracked_request = 1
   \<and> linked (snd (driver_cancel ret2_0 Context 3 (tracked_world\<lparr>kill_r := [Pa_ok ()]\<rparr>))) = []"
  by (simp add: driver_cancel_def tracked_world_def ready_world_def registry_of_def
        tracked_request_def eval_defs)


section \<open>Uploading with the cache control \<open>never\<close>\<close>

text \<open>
  The test \<^verbatim>\<open>ct == CA_CACHE_CONTROL_NEVER\<close> is on the pointer: it never holds for a
  property that is set, whatever its value and whatever the constant, and it holds for a
  property that is not set.
\<close>

lemma ptr_eq_int_set: "\<not> ptr_eq_int (Some s) k"
  by (simp add: ptr_eq_int_def)

lemma driver_cache_without_cache_control:
  "fst (driver_cache Context (Some [(''event.id'', ''bell'')]) willing_world)
     = Returned CA_ERROR_INVALID
   \<and> log (snd (driver_cache Context (Some [(''event.id'', ''bell'')]) willing_world))
     = [Ev_free 1]"
  by (simp add: driver_cache_def convert_proplist_def cache_finish_def pa_proplist_gets_def
        ptr_eq_int_def willing_world_def ready_world_def registry_of_def eval_defs)

text \<open>
  C4. The claim: \<open>driver_cache\<close> with a cache control that is explicitly \<open>never\<close>
  fails with \<^verbatim>\<open>CA_ERROR_INVALID\<close> before the server is contacted. The code parses the
  value into \<^verbatim>\<open>cache_control\<close> and then tests the pointer \<^verbatim>\<open>ct\<close>, not
  \<^verbatim>\<open>cache_control\<close>, against \<^verbatim>\<open>CA_CACHE_CONTROL_NEVER\<close>. For the properties of "bell" with
  the cache control \<open>never\<close> it looks the sound up, creates a stream, connects it for
  upload, waits for the upload and returns success.
\<close>

theorem driver_cache_never_is_uploaded:
  "fst (driver_cache Context (bell ''never'') (willing_world\<lparr>wakeup_r := [uploaded]\<rparr>))
     = Returned CA_SUCCESS
   \<and> log (snd (driver_cache Context (bell ''never'') (willing_world\<lparr>wakeup_r := [uploaded]\<rparr>)))
     = [Ev_lookup_sound,
        Ev_stream_new ''bell'' (2, 44100)
          [(''event.id'', ''bell''), (''canberra.cache-control'', ''never'')],
        Ev_connect_upload 100 1000,
        Ev_sound_file_close, Ev_stream_disconnect 100, Ev_free 1]"
  by (simp add: driver_cache_def convert_proplist_def cache_finish_def pa_proplist_gets_def
        ptr_eq_int_def ca_parse_cache_control_def strip_canberra_data_filter cache_wait.simps
        willing_world_def ready_world_def registry_of_def bell_def bell_file_def uploaded_def
        eval_defs)

section \<open>Playing: the result of the play attempt\<close>

text \<open>
  With a callback, the request whose play attempt failed is linked into the registry as
  if it played: it has no sink input, so no later event completes it.
\<close>

lemma driver_play_server_error_links_request:
  "fst (driver_play ret0 Context 3 (Some [(''event.id'', ''bell'')]) (Some 9) None
         (tracked_world\<lparr>alloc_r := [True, True, True],
            play_sample_r := [Play_done PA_INVALID_INDEX PA_ERR_ACCESS]\<rparr>))
     = Returned CA_SUCCESS
   \<and> linked (snd (driver_play ret0 Context 3 (Some [(''event.id'', ''bell'')]) (Some 9) None
         (tracked_world\<lparr>alloc_r := [True, True, True],
            play_sample_r := [Play_done PA_INVALID_INDEX PA_ERR_ACCESS]\<rparr>)))
     = [2, 1]"
  by (simp add: driver_play_def play_setup_def play_loop.simps play_finish_def
        play_sample_cb_def subscribe_def convert_proplist_def pa_proplist_gets_def
        tracked_world_def ready_world_def registry_of_def tracked_request_def eval_defs)

text \<open>
  C5. The claim: when the play attempt completes with a result other than NotFound,
  \<open>driver_play\<close> returns that result. The code leaves the loop with
  \<^verbatim>\<open>if (out->error != CA_ERROR_NOTFOUND) goto finish;\<close> and returns \<^verbatim>\<open>ret\<close>, which the
  attempt has not touched: it still holds the success of the steps before. The server
  answers the play attempt with \<^verbatim>\<open>PA_ERR_ACCESS\<close>, which translates to
  \<^verbatim>\<open>CA_ERROR_ACCESS\<close>, and \<open>driver_play\<close> returns \<^verbatim>\<open>CA_SUCCESS\<close>.
\<close>

theorem driver_play_server_error_is_success:
  "fst (driver_play ret0 Context 3 (Some [(''event.id'', ''bell'')]) None None
         (willing_world\<lparr>play_sample_r := [Play_done PA_INVALID_INDEX PA_ERR_ACCESS]\<rparr>))
     = Returned CA_SUCCESS
   \<and> log (snd (driver_play ret0 Context 3 (Some [(''event.id'', ''bell'')]) None None
         (willing_world\<lparr>play_sample_r := [Play_done PA_INVALID_INDEX PA_ERR_ACCESS]\<rparr>)))
     = [Ev_play_sample ''bell'' [(''event.id'', ''bell'')], Ev_free 1]
   \<and> translate_error 21 (int PA_ERR_ACCESS) = Returned CA_ERROR_ACCESS
   \<and> CA_ERROR_ACCESS \<noteq> CA_SUCCESS"
  by (simp add: driver_play_def play_setup_def play_loop.simps play_finish_def
        play_sample_cb_def convert_proplist_def pa_proplist_gets_def strip_canberra_data_filter
        willing_world_def ready_world_def registry_of_def eval_defs)


section \<open>Closing the context\<close>


lemma callbacks_of_Nil [simp]: "callbacks_of [] = []"
  by (simp add: callbacks_of_def)

lemma frees_of_Nil [simp]: "frees_of [] = []"
  by (simp add: frees_of_def)

lemma callbacks_of_bookkeeping [simp]:
  "callbacks_of [Ev_mainloop_stop] = []" "callbacks_of [Ev_context_disconnect] = []"
  "callbacks_of [Ev_mainloop_free] = []" "callbacks_of [Ev_theme_free] = []"
  by (simp_all add: callbacks_of_def)

lemma frees_of_bookkeeping [simp]:
  "frees_of [Ev_mainloop_stop] = []" "frees_of [Ev_context_disconnect] = []"
  "frees_of [Ev_mainloop_free] = []" "frees_of [Ev_theme_free] = []"
  by (simp_all add: frees_of_def)

lemma callbacks_of_append [simp]: "callbacks_of (xs @ ys) = callbacks_of xs @ callbacks_of ys"
  by (simp add: callbacks_of_def)

lemma frees_of_append [simp]: "frees_of (xs @ ys) = frees_of xs @ frees_of ys"
  by (simp add: frees_of_def)

lemma callbacks_of_callback_events [simp]:
  "callbacks_of (callback_events out err seen) = owed_callback err out"
  by (simp add: callbacks_of_def callback_events_def owed_callback_def split: option.split)

lemma callbacks_of_free_events [simp]: "callbacks_of (free_events out) = []"
  by (auto simp: callbacks_of_def free_events_def split: option.splits)

lemma frees_of_callback_events [simp]: "frees_of (callback_events out err seen) = []"
  by (auto simp: frees_of_def callback_events_def split: option.splits)

lemma frees_of_free_events [simp]: "frees_of (free_events out) = [addr out]"
  by (auto simp: frees_of_def free_events_def split: option.splits)

lemma callbacks_of_drained_trace:
  "callbacks_of (drained_trace err reg) = concat (map (owed_callback err) reg)"
  by (induction reg) simp_all

lemma frees_of_drained_trace: "frees_of (drained_trace err reg) = map addr reg"
  by (induction reg) simp_all

lemma destroy_loop_drains:
  "priv w = Some p \<Longrightarrow>
   destroy_loop w
   = w\<lparr>priv := Some (p\<lparr>outstanding := []\<rparr>),
       log := log w @ drained_trace CA_ERROR_DESTROYED (outstanding p)\<rparr>"
proof (induction "outstanding p" arbitrary: w p)
  case Nil
  then have "p\<lparr>outstanding := []\<rparr> = p" by simp
  with Nil show ?case by (simp add: destroy_loop.simps)
next
  case (Cons out rest)
  let ?w' = "outstanding_free out (call_callback out CA_ERROR_DESTROYED (set_outstanding rest w))"
  have p': "priv ?w' = Some (p\<lparr>outstanding := rest\<rparr>)"
    using Cons.prems by (simp add: outstanding_free_def call_callback_def set_outstanding_def)
  have "destroy_loop w = destroy_loop ?w'"
    using Cons.prems Cons.hyps(2)[symmetric] by (subst destroy_loop.simps) simp
  also have "\<dots> = ?w'\<lparr>priv := Some (p\<lparr>outstanding := rest, outstanding := []\<rparr>),
       log := log ?w' @ drained_trace CA_ERROR_DESTROYED rest\<rparr>"
    using Cons.hyps(1)[of "p\<lparr>outstanding := rest\<rparr>" ?w'] p' by simp
  finally show ?case
    using Cons.prems Cons.hyps(2)[symmetric]
    by (simp add: outstanding_free_def call_callback_def set_outstanding_def linked_def)
qed


text \<open>
  C8. Destroying the context while the registry holds requests returns success, calls the
  callback of each request that has one exactly once, with \<^verbatim>\<open>CA_ERROR_DESTROYED\<close> and in
  the order of the registry, frees every request, and leaves no registry: the loop ends
  with the list empty and the private data is released.
\<close>

theorem driver_destroy_drains_registry:
  "priv w = Some p \<Longrightarrow>
   fst (driver_destroy Context w) = Returned CA_SUCCESS
   \<and> linked (destroy_loop w) = []
   \<and> priv (snd (driver_destroy Context w)) = None
   \<and> callbacks_of (log (snd (driver_destroy Context w)))
       = callbacks_of (log w) @ concat (map (owed_callback CA_ERROR_DESTROYED) (outstanding p))
   \<and> frees_of (log (snd (driver_destroy Context w)))
       = frees_of (log w) @ map addr (outstanding p)"
proof -
  assume p: "priv w = Some p"
  let ?w1 = "if mainloop p then w\<lparr>log := log w @ [Ev_mainloop_stop]\<rparr> else w"
  have p1: "priv ?w1 = Some p" using p by simp
  have quiet: "callbacks_of (log ?w1) = callbacks_of (log w)" "frees_of (log ?w1) = frees_of (log w)"
    by simp_all
  have loop: "log (destroy_loop ?w1) = log ?w1 @ drained_trace CA_ERROR_DESTROYED (outstanding p)"
    by (subst destroy_loop_drains[OF p1]) simp
  have "linked (destroy_loop w) = []"
    by (subst destroy_loop_drains[OF p]) (simp add: linked_def)
  moreover have "fst (driver_destroy Context w) = Returned CA_SUCCESS"
      "priv (snd (driver_destroy Context w)) = None"
    using p by (simp_all add: driver_destroy_def Let_def)
  moreover have "callbacks_of (log (snd (driver_destroy Context w)))
       = callbacks_of (log w) @ concat (map (owed_callback CA_ERROR_DESTROYED) (outstanding p))"
    using p loop quiet
    by (simp add: driver_destroy_def Let_def callbacks_of_drained_trace)
  moreover have "frees_of (log (snd (driver_destroy Context w)))
       = frees_of (log w) @ map addr (outstanding p)"
    using p loop quiet
    by (simp add: driver_destroy_def Let_def frees_of_drained_trace)
  ultimately show ?thesis by simp
qed

theorem driver_destroy_drains_registry_witness:
  "priv two_world = Some (registry_of [tracked_request, silent_request])
   \<and> fst (driver_destroy Context two_world) = Returned CA_SUCCESS
   \<and> linked (destroy_loop two_world) = []
   \<and> priv (snd (driver_destroy Context two_world)) = None
   \<and> callbacks_of (log (snd (driver_destroy Context two_world)))
       = [(9, 3, CA_ERROR_DESTROYED, None)]
   \<and> frees_of (log (snd (driver_destroy Context two_world))) = [1, 2]"
  using driver_destroy_drains_registry [of two_world "registry_of [tracked_request, silent_request]"]
  by (simp add: two_world_def ready_world_def registry_of_def owed_callback_def
        tracked_request_def silent_request_def new_outstanding_def)

section \<open>Counting events along a run\<close>

lemma hoareD:
  "hoare P a m b \<Longrightarrow> count_events P w \<le> a \<Longrightarrow> count_events P (snd (m w)) \<le> b"
  by (simp add: hoare_def)

lemma hoare_bnd:
  assumes m: "hoare P a m c" and k: "\<And>x. hoare P c (k x) b"
  shows "hoare P a (bnd m k) b"
proof -
  have ac: "a \<le> c" and cb: "c \<le> b"
    using m k[of undefined] by (simp_all add: hoare_def)
  have "count_events P (snd (bnd m k w)) \<le> b" if a: "count_events P w \<le> a" for w
  proof -
    obtain r w' where mw: "m w = (r, w')" by (cases "m w")
    from hoareD[OF m a] mw have c: "count_events P w' \<le> c" by simp
    show ?thesis
    proof (cases r)
      case (Returned x)
      with mw hoareD[OF k[of x] c] show ?thesis by (simp add: bnd_def)
    next
      case (Fault f)
      with mw c cb show ?thesis by (simp add: bnd_def)
    qed
  qed
  with ac cb show ?thesis by (simp add: hoare_def)
qed

lemma silentI: "(\<And>w. log (snd (m w)) = log w) \<Longrightarrow> silent m"
  by (simp add: silent_def)

lemma silentD: "silent m \<Longrightarrow> log (snd (m w)) = log w"
  by (simp add: silent_def)

lemma hoare_silent: "silent m \<Longrightarrow> a \<le> b \<Longrightarrow> hoare P a m b"
  by (simp add: hoare_def silent_def count_events_def)

lemma hoare_bnd_silent: "silent m \<Longrightarrow> (\<And>x. hoare P a (k x) b) \<Longrightarrow> hoare P a (bnd m k) b"
  by (rule hoare_bnd[where c = a]) (simp_all add: hoare_silent)

lemma hoare_emit: "(if P e then Suc a else a) \<le> b \<Longrightarrow> hoare P a (emit e) b"
  by (auto simp: hoare_def emit_def count_events_def split: if_splits)

lemma hoare_bnd_emit:
  "(\<And>x. hoare P (if P e then Suc a else a) (k x) b) \<Longrightarrow> hoare P a (bnd (emit e) k) b"
  by (rule hoare_bnd[where c = "if P e then Suc a else a"]) (simp_all add: hoare_emit)

lemma silent_result: "silent (result x)"
  by (simp add: silent_def result_def)

lemma silent_fail: "silent (fail f)"
  by (simp add: silent_def fail_def)

lemma silent_translated: "silent (translated e)"
  by (simp add: silent_def translated_def)

lemma silent_get_priv: "silent get_priv"
  by (simp add: silent_def get_priv_def)

lemma silent_strtod: "silent (strtod s)"
  by (simp add: silent_def strtod_def)

lemma silent_pop: "(\<And>xs w. log (rest xs w) = log w) \<Longrightarrow> silent (pop script rest)"
  by (simp add: silent_def pop_def split: list.split)

lemma silent_bnd:
  assumes m: "silent m" and k: "\<And>x. silent (k x)"
  shows "silent (bnd m k)"
proof (rule silentI)
  fix w
  obtain r w' where mw: "m w = (r, w')" by (cases "m w")
  with silentD[OF m, of w] have "log w' = log w" by simp
  with mw silentD[OF k] show "log (snd (bnd m k w)) = log w"
    by (cases r) (simp_all add: bnd_def)
qed

lemma silent_alloc: "silent alloc"
  by (simp add: alloc_def silent_pop)

lemma silent_ca_new0: "silent ca_new0"
  unfolding ca_new0_def
  by (intro silent_bnd silent_alloc) (simp add: silent_def result_def)

lemma silent_convert_proplist: "silent (convert_proplist c)"
proof (cases c)
  case None
  then show ?thesis by (simp add: convert_proplist_def silent_result)
next
  case (Some items)
  have "silent (\<lambda>w. case convert_items (key_valid w) items [] of
                       None \<Rightarrow> (Returned (CA_ERROR_INVALID, None), w)
                     | Some l' \<Rightarrow> (Returned (CA_SUCCESS, Some l'), w))"
    by (rule silentI) (simp split: option.split)
  with Some show ?thesis
    by (simp add: convert_proplist_def) (intro silent_bnd silent_alloc, simp add: silent_result)
qed

text \<open>The wait loops leave the trace alone: induction along the wake-ups.\<close>

lemma cache_wait_log: "log (snd (cache_wait w)) = log w"
proof (induction w rule: cache_wait.induct)
  case (1 w)
  show ?case
  proof (cases "wakeup_r w")
    case Nil
    then show ?thesis by (subst cache_wait.simps) simp
  next
    case (Cons u us)
    with 1[OF Cons] show ?thesis
      by (subst cache_wait.simps) (simp split: outcome.split)
  qed
qed

lemma play_wait_log: "log (snd (play_wait out w)) = log w"
proof (induction out w rule: play_wait.induct)
  case (1 out w)
  show ?case
  proof (cases "wakeup_r w")
    case Nil
    then show ?thesis by (subst play_wait.simps) simp
  next
    case (Cons u us)
    with 1[OF Cons refl] show ?thesis
      by (subst play_wait.simps) (simp split: outcome.split add: Let_def)
  qed
qed

lemma silent_cache_wait: "silent cache_wait"
  by (rule silentI) (rule cache_wait_log)

lemma silent_play_wait: "silent (play_wait out)"
  by (rule silentI) (rule play_wait_log)

lemma silent_pa_stream_get_index: "silent pa_stream_get_index"
  by (simp add: pa_stream_get_index_def silent_pop)

lemma silent_set_subscribed: "silent set_subscribed"
  by (simp add: silent_def set_subscribed_def)

lemma silent_prepend_outstanding: "silent (prepend_outstanding out)"
  by (simp add: silent_def prepend_outstanding_def set_outstanding_def split: option.split)

lemma silent_play_sample_cb: "silent (play_sample_cb idx errno out)"
  by (simp add: play_sample_cb_def silent_result silent_bnd silent_translated)

lemma hoare_result: "a \<le> b \<Longrightarrow> hoare P a (result x) b"
  by (simp add: hoare_silent silent_result)

lemma hoare_fail: "a \<le> b \<Longrightarrow> hoare P a (fail x) b"
  by (simp add: hoare_silent silent_fail)

text \<open>A library call: one event in the trace, then the answer of the script.\<close>

lemma hoare_bnd_call:
  assumes "\<And>xs w. log (rest xs w) = log w"
    and "\<And>x. hoare P (if P e then Suc a else a) (k x) b"
  shows "hoare P a (bnd (bnd (emit e) (\<lambda>_. pop script rest)) k) b"
proof -
  have "hoare P a (bnd (emit e) (\<lambda>_. pop script rest)) (if P e then Suc a else a)"
    by (rule hoare_bnd_emit) (simp add: hoare_silent silent_pop assms(1))
  then show ?thesis by (rule hoare_bnd) (rule assms(2))
qed

lemma hoare_bnd_ca_lookup_sound:
  "(\<And>x. hoare P (if P Ev_lookup_sound then Suc a else a) (k x) b) \<Longrightarrow>
   hoare P a (bnd ca_lookup_sound k) b"
  unfolding ca_lookup_sound_def by (rule hoare_bnd_call) simp_all

lemma hoare_bnd_pa_stream_new:
  "(\<And>x. hoare P (if P (Ev_stream_new n ss l) then Suc a else a) (k x) b) \<Longrightarrow>
   hoare P a (bnd (pa_stream_new_with_proplist n ss l) k) b"
  unfolding pa_stream_new_with_proplist_def by (rule hoare_bnd_call) simp_all

lemma hoare_bnd_pa_stream_connect_upload:
  "(\<And>x. hoare P (if P (Ev_connect_upload s n) then Suc a else a) (k x) b) \<Longrightarrow>
   hoare P a (bnd (pa_stream_connect_upload s n) k) b"
  unfolding pa_stream_connect_upload_def by (rule hoare_bnd_call) simp_all

lemma hoare_bnd_pa_stream_connect_playback:
  "(\<And>x. hoare P (if P (Ev_connect_playback s) then Suc a else a) (k x) b) \<Longrightarrow>
   hoare P a (bnd (pa_stream_connect_playback s) k) b"
  unfolding pa_stream_connect_playback_def by (rule hoare_bnd_call) simp_all

lemma hoare_bnd_pa_context_play_sample:
  "(\<And>x. hoare P (if P (Ev_play_sample n l) then Suc a else a) (k x) b) \<Longrightarrow>
   hoare P a (bnd (pa_context_play_sample_with_proplist n l) k) b"
  unfolding pa_context_play_sample_with_proplist_def by (rule hoare_bnd_call) simp_all

lemma hoare_bnd_pa_context_subscribe:
  "(\<And>x. hoare P (if P Ev_context_subscribe then Suc a else a) (k x) b) \<Longrightarrow>
   hoare P a (bnd pa_context_subscribe k) b"
  unfolding pa_context_subscribe_def by (rule hoare_bnd_call) simp_all

lemma hoare_do_free:
  "\<not> P Ev_sound_file_close \<Longrightarrow> (\<And>s. \<not> P (Ev_stream_disconnect s)) \<Longrightarrow>
   (\<And>x. \<not> P (Ev_free x)) \<Longrightarrow> a \<le> b \<Longrightarrow> hoare P a (do_free out) b"
  by (simp add: hoare_def do_free_def outstanding_free_def free_events_def count_events_def
      split: option.split)

lemma hoare_cache_finish:
  "\<not> P Ev_sound_file_close \<Longrightarrow> (\<And>s. \<not> P (Ev_stream_disconnect s)) \<Longrightarrow>
   (\<And>x. \<not> P (Ev_free x)) \<Longrightarrow> a \<le> b \<Longrightarrow> hoare P a (cache_finish out ret) b"
  unfolding cache_finish_def
  by (rule hoare_bnd[where c = a]) (simp_all add: hoare_do_free hoare_result)

lemma hoare_bnd_translated_cache_finish:
  "\<not> P Ev_sound_file_close \<Longrightarrow> (\<And>s. \<not> P (Ev_stream_disconnect s)) \<Longrightarrow>
   (\<And>x. \<not> P (Ev_free x)) \<Longrightarrow> a \<le> b \<Longrightarrow>
   hoare P a (bnd (translated e) (cache_finish out)) b"
  by (rule hoare_bnd_silent[OF silent_translated]) (rule hoare_cache_finish)

lemmas hoare_silent_steps =
  hoare_bnd_silent[OF silent_alloc] hoare_bnd_silent[OF silent_ca_new0]
  hoare_bnd_silent[OF silent_convert_proplist] hoare_bnd_silent[OF silent_translated]
  hoare_bnd_silent[OF silent_get_priv] hoare_bnd_silent[OF silent_cache_wait]
  hoare_bnd_silent[OF silent_play_wait] hoare_bnd_silent[OF silent_pa_stream_get_index]
  hoare_bnd_silent[OF silent_set_subscribed] hoare_bnd_silent[OF silent_prepend_outstanding]
  hoare_bnd_silent[OF silent_play_sample_cb] hoare_bnd_silent[OF silent_strtod]

lemmas hoare_call_steps =
  hoare_bnd_ca_lookup_sound hoare_bnd_pa_stream_new hoare_bnd_pa_stream_connect_upload
  hoare_bnd_pa_stream_connect_playback hoare_bnd_pa_context_play_sample
  hoare_bnd_pa_context_subscribe

lemmas hoare_leaves = hoare_result hoare_fail

lemma is_play_sample_simps [simp]:
  "is_play_sample (Ev_play_sample n l)" "\<not> is_play_sample Ev_sound_file_close"
  "\<not> is_play_sample (Ev_stream_disconnect s)" "\<not> is_play_sample (Ev_free x)"
  "\<not> is_play_sample Ev_lookup_sound" "\<not> is_play_sample (Ev_stream_new n ss l)"
  "\<not> is_play_sample (Ev_connect_upload s z)" "\<not> is_play_sample (Ev_connect_playback s)"
  "\<not> is_play_sample Ev_context_subscribe"
  by (simp_all add: is_play_sample_def)

lemma is_connect_upload_simps [simp]:
  "\<not> is_connect_upload (Ev_play_sample n l)" "\<not> is_connect_upload Ev_sound_file_close"
  "\<not> is_connect_upload (Ev_stream_disconnect s)" "\<not> is_connect_upload (Ev_free x)"
  "\<not> is_connect_upload Ev_lookup_sound" "\<not> is_connect_upload (Ev_stream_new n ss l)"
  "is_connect_upload (Ev_connect_upload s z)" "\<not> is_connect_upload (Ev_connect_playback s)"
  "\<not> is_connect_upload Ev_context_subscribe"
  by (simp_all add: is_connect_upload_def)

lemma is_connect_playback_simps [simp]:
  "\<not> is_connect_playback (Ev_play_sample n l)" "\<not> is_connect_playback Ev_sound_file_close"
  "\<not> is_connect_playback (Ev_stream_disconnect s)" "\<not> is_connect_playback (Ev_free x)"
  "\<not> is_connect_playback Ev_lookup_sound" "\<not> is_connect_playback (Ev_stream_new n ss l)"
  "\<not> is_connect_playback (Ev_connect_upload s z)" "is_connect_playback (Ev_connect_playback s)"
  "\<not> is_connect_playback Ev_context_subscribe"
  by (simp_all add: is_connect_playback_def)

section \<open>The retry loop\<close>

text \<open>An upload makes no play attempt and connects at most one upload stream.\<close>

lemma hoare_driver_cache_plays: "hoare is_play_sample a (driver_cache c pl) a"
  unfolding driver_cache_def
  by (intro hoare_silent_steps hoare_call_steps impI conjI allI
      | simp add: hoare_leaves hoare_cache_finish hoare_bnd_translated_cache_finish Let_def
          split: option.split prod.split pa_answer.split)+

lemma hoare_driver_cache_uploads: "hoare is_connect_upload a (driver_cache c pl) (Suc a)"
  unfolding driver_cache_def
  by (intro hoare_silent_steps hoare_call_steps impI conjI allI
      | simp add: hoare_leaves hoare_cache_finish hoare_bnd_translated_cache_finish Let_def
          split: option.split prod.split pa_answer.split)+

lemma hoare_subscribe: "\<not> P Ev_context_subscribe \<Longrightarrow> hoare P a (subscribe ret0 c) a"
  unfolding subscribe_def
  by (intro hoare_silent_steps hoare_call_steps impI conjI allI
      | simp add: hoare_leaves split: option.split pa_answer.split)+

lemma hoare_play_setup:
  "\<not> P Ev_context_subscribe \<Longrightarrow> hoare P a (play_setup ret0 c pl cb out) a"
  unfolding play_setup_def
  by (intro hoare_silent_steps hoare_bnd[OF hoare_subscribe] impI conjI allI
      | simp add: hoare_leaves Let_def split: option.split prod.split)+

lemma hoare_play_finish:
  "\<not> P Ev_sound_file_close \<Longrightarrow> (\<And>s. \<not> P (Ev_stream_disconnect s)) \<Longrightarrow>
   (\<And>x. \<not> P (Ev_free x)) \<Longrightarrow> a \<le> b \<Longrightarrow> hoare P a (play_finish cb v) b"
  unfolding play_finish_def
  by (intro hoare_silent_steps hoare_bnd[OF hoare_do_free] impI conjI allI
      | simp add: hoare_leaves)+

lemma hoare_play_stream:
  "\<not> P Ev_lookup_sound \<Longrightarrow> (\<And>n ss l. \<not> P (Ev_stream_new n ss l)) \<Longrightarrow>
   (\<And>s. \<not> P (Ev_connect_playback s)) \<Longrightarrow> hoare P a (play_stream v) a"
  unfolding play_stream_def
  by (intro hoare_silent_steps hoare_call_steps impI conjI allI
      | simp add: hoare_leaves Let_def split: option.split prod.split pa_answer.split)+

text \<open>
  The loop with \<open>try\<close> at 1 makes one attempt and no upload; with \<open>try\<close> at 2 and 3
  it makes one attempt and at most one upload more each.
\<close>

lemma hoare_play_loop_1_plays: "hoare is_play_sample a (play_loop c pl 1 v) (Suc a)"
  by (subst play_loop.simps)
     (intro hoare_silent_steps hoare_call_steps impI conjI allI
      | simp add: hoare_leaves split: option.split play_answer.split)+

lemma hoare_play_loop_2_plays: "hoare is_play_sample a (play_loop c pl 2 v) (Suc (Suc a))"
  by (subst play_loop.simps)
     (intro hoare_silent_steps hoare_call_steps hoare_bnd[OF hoare_driver_cache_plays]
        impI conjI allI
      | simp add: hoare_leaves hoare_play_loop_1_plays split: option.split play_answer.split)+

lemma hoare_play_loop_3_plays:
  "hoare is_play_sample a (play_loop c pl 3 v) (Suc (Suc (Suc a)))"
  by (subst play_loop.simps)
     (intro hoare_silent_steps hoare_call_steps hoare_bnd[OF hoare_driver_cache_plays]
        impI conjI allI
      | simp add: hoare_leaves hoare_play_loop_2_plays split: option.split play_answer.split)+

lemma hoare_play_loop_1_uploads: "hoare is_connect_upload a (play_loop c pl 1 v) a"
  by (subst play_loop.simps)
     (intro hoare_silent_steps hoare_call_steps impI conjI allI
      | simp add: hoare_leaves split: option.split play_answer.split)+

lemma hoare_play_loop_2_uploads: "hoare is_connect_upload a (play_loop c pl 2 v) (Suc a)"
  by (subst play_loop.simps)
     (intro hoare_silent_steps hoare_call_steps hoare_bnd[OF hoare_driver_cache_uploads]
        impI conjI allI
      | simp add: hoare_leaves hoare_play_loop_1_uploads split: option.split play_answer.split)+

lemma hoare_play_loop_3_uploads:
  "hoare is_connect_upload a (play_loop c pl 3 v) (Suc (Suc a))"
  by (subst play_loop.simps)
     (intro hoare_silent_steps hoare_call_steps hoare_bnd[OF hoare_driver_cache_uploads]
        impI conjI allI
      | simp add: hoare_leaves hoare_play_loop_2_uploads split: option.split play_answer.split)+

lemma hoare_driver_play_plays:
  "hoare is_play_sample a (driver_play ret0 c id' pl cb ud) (Suc (Suc (Suc a)))"
  unfolding driver_play_def
  by (intro hoare_silent_steps hoare_bnd[OF hoare_play_setup]
        hoare_bnd[OF hoare_play_loop_3_plays] hoare_bnd[OF hoare_play_stream] impI conjI allI
      | simp add: hoare_leaves hoare_play_finish Let_def split: option.split prod.split)+

lemma hoare_driver_play_uploads:
  "hoare is_connect_upload a (driver_play ret0 c id' pl cb ud) (Suc (Suc a))"
  unfolding driver_play_def
  by (intro hoare_silent_steps hoare_bnd[OF hoare_play_setup]
        hoare_bnd[OF hoare_play_loop_3_uploads] hoare_bnd[OF hoare_play_stream] impI conjI allI
      | simp add: hoare_leaves hoare_play_finish Let_def split: option.split prod.split)+

section \<open>Retrying after an upload\<close>

text \<open>
  The wait loop of \<^verbatim>\<open>driver_cache\<close> sleeps through the wake-ups at which the stream is
  neither terminated nor failed, and ends at the one at which it is terminated.
\<close>

lemma cache_wait_terminated:
  "wakeup_r w = ups @ t # rest \<Longrightarrow> list_all waiting ups \<Longrightarrow>
   seen_state t = PA_STREAM_TERMINATED \<Longrightarrow>
   cache_wait w = (Returned None, w\<lparr>wakeup_r := rest\<rparr>)"
proof (induction ups arbitrary: w)
  case Nil
  then show ?case by (subst cache_wait.simps) simp
next
  case (Cons u ups)
  from Cons.prems have "cache_wait w = cache_wait (w\<lparr>wakeup_r := ups @ t # rest\<rparr>)"
    by (subst cache_wait.simps) (simp add: waiting_def)
  also have "\<dots> = (Returned None, w\<lparr>wakeup_r := ups @ t # rest, wakeup_r := rest\<rparr>)"
    using Cons.prems by (intro Cons.IH) simp_all
  finally show ?case by simp
qed

text \<open>
  An upload that succeeds: the allocations succeed, the sound is found, the stream is
  created and connected, and the stream terminates. \<open>driver_cache\<close> returns success,
  and the trace grows by \<open>upload_events\<close>.
\<close>

lemma driver_cache_uploads:
  assumes "priv w = Some p" "mainloop p" "pcontext p"
    and "alloc_r w = True # True # True # allocs"
    and "convert_items (key_valid w) items [] = Some l"
    and "pa_proplist_gets l CA_PROP_EVENT_ID = Some n"
    and "pa_proplist_gets l CA_PROP_CANBERRA_CACHE_CONTROL = Some ct"
    and "ca_parse_cache_control CA_CACHE_CONTROL_NEVER ct = (CA_SUCCESS, cc)"
    and "lookup_r w = (r, Some f) # lookups" "0 \<le> r"
    and "stream_new_r w = Pa_ok s # streams"
    and "connect_r w = Pa_ok () # connects"
    and "wakeup_r w = ups @ t # wakeups" "list_all waiting ups"
        "seen_state t = PA_STREAM_TERMINATED"
  shows "driver_cache Context (Some items) w =
      (Returned CA_SUCCESS,
       w\<lparr>log := log w @ upload_events n (strip_canberra_data l) f s (next_addr w),
         next_addr := Suc (next_addr w), alloc_r := allocs, lookup_r := lookups,
         stream_new_r := streams, connect_r := connects, wakeup_r := wakeups\<rparr>)"
  using assms(1-12)
  by (simp add: driver_cache_def convert_proplist_def cache_finish_def ptr_eq_int_def
       cache_wait_terminated[OF _ assms(14,15)] assms(13) upload_events_def eval_defs)

text \<open>
  The steps of \<open>driver_play\<close> up to the loop, for a request that names an event, whose
  volume (if it has one) is readable and whose cache control parses. When there is a
  callback and the context is not subscribed yet, the server accepts the subscription
  and the indeterminate value that \<open>subscribe\<close> returns then is not negative.
\<close>

lemma play_subscribed_fields [simp]:
  "unlinked (play_subscribed cb w) = unlinked w"
  "next_addr (play_subscribed cb w) = next_addr w"
  "pa_err_max (play_subscribed cb w) = pa_err_max w"
  "key_valid (play_subscribed cb w) = key_valid w"
  "strtod_ok (play_subscribed cb w) = strtod_ok w"
  "alloc_r (play_subscribed cb w) = alloc_r w"
  "play_sample_r (play_subscribed cb w) = play_sample_r w"
  "kill_r (play_subscribed cb w) = kill_r w"
  "lookup_r (play_subscribed cb w) = lookup_r w"
  "stream_new_r (play_subscribed cb w) = stream_new_r w"
  "connect_r (play_subscribed cb w) = connect_r w"
  "wakeup_r (play_subscribed cb w) = wakeup_r w"
  "get_index_r (play_subscribed cb w) = get_index_r w"
  by (simp_all add: play_subscribed_def split: option.split)

lemma play_subscribed_priv:
  "priv w = Some p \<Longrightarrow>
   \<exists>p'. priv (play_subscribed cb w) = Some p' \<and> mainloop p' = mainloop p
     \<and> pcontext p' = pcontext p \<and> outstanding p' = outstanding p"
  by (simp add: play_subscribed_def)

lemma play_subscribed_log:
  "priv w = Some p \<Longrightarrow>
   log (play_subscribed cb w)
     = log w @ (if cb = None \<or> subscribed p then [] else [Ev_context_subscribe])"
  by (simp add: play_subscribed_def)

lemma play_subscribed_allocated:
  "play_subscribed cb (w\<lparr>alloc_r := a, next_addr := m\<rparr>)
     = (play_subscribed cb w)\<lparr>alloc_r := a, next_addr := m\<rparr>"
  by (cases w) (simp add: play_subscribed_def split: option.split)

lemma play_setup_ready:
  assumes "priv w = Some p" "mainloop p" "pcontext p"
    and "cb = None \<or> subscribed p \<or> subscribe_r w = Pa_ok () # subs \<and> 0 \<le> ret0"
    and "alloc_r w = True # True # allocs"
    and "convert_items (key_valid w) items [] = Some l"
    and "pa_proplist_gets l CA_PROP_EVENT_ID = Some n"
    and "case pa_proplist_gets l CA_PROP_CANBERRA_VOLUME of
           None \<Rightarrow> True | Some vol \<Rightarrow> strtod_ok w vol"
    and "pa_proplist_gets l CA_PROP_CANBERRA_CACHE_CONTROL = Some ct"
    and "ca_parse_cache_control CA_CACHE_CONTROL_NEVER ct = (CA_SUCCESS, cc)"
  shows "play_setup ret0 Context (Some items) cb out w =
      (Returned (Continue, \<lparr>pv_out = out, pv_l = Some (strip_canberra_data l),
                            pv_name = Some n, pv_cache_control = cc,
                            pv_ret = (if cb = None \<or> subscribed p then CA_SUCCESS else ret0)\<rparr>),
       (play_subscribed cb w)\<lparr>alloc_r := allocs\<rparr>)"
proof (cases "cb = None")
  case True
  with assms show ?thesis
    by (cases "pa_proplist_gets l CA_PROP_CANBERRA_VOLUME")
       (simp_all add: play_setup_def convert_proplist_def play_subscribed_def eval_defs)
next
  case False
  note cb = this
  show ?thesis
  proof (cases "subscribed p")
    case True
    have "subscribe ret0 Context (w\<lparr>alloc_r := allocs\<rparr>)
            = (Returned CA_SUCCESS, w\<lparr>alloc_r := allocs\<rparr>)"
      using assms(1-3) True by (intro subscribe_again[where p = p]) simp_all
    with cb True assms show ?thesis
      by (cases "pa_proplist_gets l CA_PROP_CANBERRA_VOLUME")
         (simp_all add: play_setup_def convert_proplist_def play_subscribed_def eval_defs)
  next
    case False
    with cb assms(4) have sub: "subscribe_r w = Pa_ok () # subs" "0 \<le> ret0"
      by auto
    have "subscribe ret0 Context (w\<lparr>alloc_r := allocs\<rparr>)
            = (Returned ret0, (play_subscribed cb w)\<lparr>alloc_r := allocs\<rparr>)"
      using assms(1-3) cb False sub
      by (cases w)
         (simp add: subscribe_def play_subscribed_def pa_context_subscribe_def
            set_subscribed_def bnd_def get_priv_def emit_def pop_def result_def)
    with cb False sub assms show ?thesis
      by (cases "pa_proplist_gets l CA_PROP_CANBERRA_VOLUME")
         (auto simp: play_setup_def convert_proplist_def eval_defs)
  qed
qed

text \<open>
  One turn of the loop in which the server does not have the sample, attempts remain and
  the upload succeeds: the loop goes round again with \<open>try\<close> one less.
\<close>

lemma play_loop_retry:
  assumes "pv_name v = Some n" "pv_l v = Some sl" "pv_cache_control v \<noteq> CA_CACHE_CONTROL_NEVER"
    and "1 < try"
    and "play_sample_r w = Play_done PA_INVALID_INDEX e # plays"
    and "translate_error (pa_err_max w) (int e) = Returned CA_ERROR_NOTFOUND"
    and "priv w = Some p" "mainloop p" "pcontext p"
    and "alloc_r w = True # True # True # allocs"
    and "convert_items (key_valid w) items [] = Some l"
    and "pa_proplist_gets l CA_PROP_EVENT_ID = Some n'"
    and "pa_proplist_gets l CA_PROP_CANBERRA_CACHE_CONTROL = Some ct"
    and "ca_parse_cache_control CA_CACHE_CONTROL_NEVER ct = (CA_SUCCESS, cc)"
    and "lookup_r w = (r, Some f) # lookups" "0 \<le> r"
    and "stream_new_r w = Pa_ok s # streams"
    and "connect_r w = Pa_ok () # connects"
    and "wakeup_r w = ups @ t # wakeups" "list_all waiting ups"
        "seen_state t = PA_STREAM_TERMINATED"
  shows "play_loop Context (Some items) try v w =
      play_loop Context (Some items) (try - 1)
        (v\<lparr>pv_out := (pv_out v)\<lparr>oerror := CA_ERROR_NOTFOUND\<rparr>, pv_ret := CA_SUCCESS\<rparr>)
        (w\<lparr>play_sample_r := plays,
           log := log w @ Ev_play_sample n sl
               # upload_events n' (strip_canberra_data l) f s (next_addr w),
           next_addr := Suc (next_addr w), alloc_r := allocs,
           lookup_r := lookups, stream_new_r := streams, connect_r := connects,
           wakeup_r := wakeups\<rparr>)"
proof -
  let ?w1 = "w\<lparr>log := log w @ [Ev_play_sample n sl], play_sample_r := plays\<rparr>"
  have dc: "driver_cache Context (Some items) ?w1 =
      (Returned CA_SUCCESS,
       ?w1\<lparr>log := log ?w1 @ upload_events n' (strip_canberra_data l) f s (next_addr ?w1),
         next_addr := Suc (next_addr ?w1), alloc_r := allocs, lookup_r := lookups,
         stream_new_r := streams, connect_r := connects, wakeup_r := wakeups\<rparr>)"
    using assms(7-21)
    by (intro driver_cache_uploads[where p = p and ct = ct and cc = cc and r = r and ups = ups
          and t = t]) simp_all
  show ?thesis
    using assms(1-6)
    by (subst play_loop.simps)
       (simp add: play_sample_cb_def pa_context_play_sample_with_proplist_def bnd_def emit_def
          pop_def translated_def result_def dc)
qed

text \<open>
  The last turn, with \<open>try\<close> at 1, when the server does not have the sample: the loop
  is left for the direct stream, without an upload. And a turn in which the server plays
  the sample: the loop is left for the label \<^verbatim>\<open>finish\<close>.
\<close>

lemma play_loop_last:
  assumes "pv_name v = Some n" "pv_l v = Some sl"
    and "play_sample_r w = Play_done PA_INVALID_INDEX e # plays"
    and "translate_error (pa_err_max w) (int e) = Returned CA_ERROR_NOTFOUND"
  shows "play_loop c proplist 1 v w =
      (Returned (Continue, v\<lparr>pv_out := (pv_out v)\<lparr>oerror := CA_ERROR_NOTFOUND\<rparr>\<rparr>),
       w\<lparr>log := log w @ [Ev_play_sample n sl], play_sample_r := plays\<rparr>)"
  using assms
  by (subst play_loop.simps)
     (simp add: play_sample_cb_def pa_context_play_sample_with_proplist_def bnd_def emit_def
        pop_def translated_def result_def)

lemma play_loop_played:
  assumes "pv_name v = Some n" "pv_l v = Some sl"
    and "play_sample_r w = Play_done idx e # plays" "idx \<noteq> PA_INVALID_INDEX"
  shows "play_loop c proplist try v w =
      (Returned (Finish, v\<lparr>pv_out := (pv_out v)\<lparr>oerror := CA_SUCCESS, sink_input := idx\<rparr>\<rparr>),
       w\<lparr>log := log w @ [Ev_play_sample n sl], play_sample_r := plays\<rparr>)"
  using assms
  by (subst play_loop.simps)
     (simp add: play_sample_cb_def pa_context_play_sample_with_proplist_def bnd_def emit_def
        pop_def translated_def result_def)

text \<open>
  \<open>driver_play\<close> up to its third attempt, when the server does not have the sample at
  the first two attempts and both uploads succeed.
\<close>

lemma driver_play_two_retries:
  assumes ctx: "priv w = Some p" "mainloop p" "pcontext p"
    and args: "userdata' = None \<or> cb \<noteq> None"
      "cb = None \<or> subscribed p \<or> subscribe_r w = Pa_ok () # subs \<and> 0 \<le> ret0"
    and req: "convert_items (key_valid w) items [] = Some l"
      "pa_proplist_gets l CA_PROP_EVENT_ID = Some n"
      "case pa_proplist_gets l CA_PROP_CANBERRA_VOLUME of
         None \<Rightarrow> True | Some vol \<Rightarrow> strtod_ok w vol"
      "pa_proplist_gets l CA_PROP_CANBERRA_CACHE_CONTROL = Some ct"
      "ca_parse_cache_control CA_CACHE_CONTROL_NEVER ct = (CA_SUCCESS, cc)"
      "cc \<noteq> CA_CACHE_CONTROL_NEVER"
    and allocs: "alloc_r w = True # True # True # True # True # True # True # True # True # allocs"
    and plays: "play_sample_r w
        = Play_done PA_INVALID_INDEX e1 # Play_done PA_INVALID_INDEX e2 # plays"
      "translate_error (pa_err_max w) (int e1) = Returned CA_ERROR_NOTFOUND"
      "translate_error (pa_err_max w) (int e2) = Returned CA_ERROR_NOTFOUND"
    and uploads: "lookup_r w = (r1, Some f1) # (r2, Some f2) # lookups" "0 \<le> r1" "0 \<le> r2"
      "stream_new_r w = Pa_ok s1 # Pa_ok s2 # streams"
      "connect_r w = Pa_ok () # Pa_ok () # connects"
      "wakeup_r w = ups1 @ t1 # ups2 @ t2 # wakeups"
      "list_all waiting ups1" "seen_state t1 = PA_STREAM_TERMINATED"
      "list_all waiting ups2" "seen_state t2 = PA_STREAM_TERMINATED"
  shows "driver_play ret0 Context id' (Some items) cb userdata' w =
      bnd (play_loop Context (Some items) 1
             \<lparr>pv_out = (new_outstanding (next_addr w))
                 \<lparr>otype := OUTSTANDING_SAMPLE, sink_input := PA_INVALID_INDEX, oid := id',
                  callback := cb, userdata := userdata', oerror := CA_ERROR_NOTFOUND\<rparr>,
               pv_l = Some (strip_canberra_data l), pv_name = Some n,
               pv_cache_control = cc, pv_ret = CA_SUCCESS\<rparr>)
          (\<lambda>(fl, v). if fl = Finish then play_finish cb v
                      else bnd (play_stream v) (play_finish cb))
          ((play_subscribed cb w)
             \<lparr>log := log (play_subscribed cb w)
                 @ Ev_play_sample n (strip_canberra_data l)
                   # upload_events n (strip_canberra_data l) f1 s1 (next_addr w + 1)
                 @ Ev_play_sample n (strip_canberra_data l)
                   # upload_events n (strip_canberra_data l) f2 s2 (next_addr w + 2),
              next_addr := next_addr w + 3, alloc_r := allocs, play_sample_r := plays,
              lookup_r := lookups, stream_new_r := streams, connect_r := connects,
              wakeup_r := wakeups\<rparr>)"
proof -
  let ?sl = "strip_canberra_data l"
  let ?K = "\<lambda>(fl, v). if fl = Finish then play_finish cb v
                        else bnd (play_stream v) (play_finish cb)"
  define out0 where "out0 = (new_outstanding (next_addr w))
      \<lparr>otype := OUTSTANDING_SAMPLE, sink_input := PA_INVALID_INDEX, oid := id',
       callback := cb, userdata := userdata'\<rparr>"
  define v0 where "v0 = \<lparr>pv_out = out0, pv_l = Some ?sl, pv_name = Some n,
      pv_cache_control = cc,
      pv_ret = (if cb = None \<or> subscribed p then CA_SUCCESS else ret0)\<rparr>"
  define v1 where "v1 = v0\<lparr>pv_out := (pv_out v0)\<lparr>oerror := CA_ERROR_NOTFOUND\<rparr>,
      pv_ret := CA_SUCCESS\<rparr>"
  define v2 where "v2 = v1\<lparr>pv_out := (pv_out v1)\<lparr>oerror := CA_ERROR_NOTFOUND\<rparr>,
      pv_ret := CA_SUCCESS\<rparr>"
  define Wa where "Wa = w\<lparr>alloc_r := True # True # True # True # True # True # True # True # allocs,
      next_addr := Suc (next_addr w)\<rparr>"
  define W1 where "W1 = (play_subscribed cb Wa)
      \<lparr>alloc_r := True # True # True # True # True # True # allocs\<rparr>"
  obtain p' where p': "priv (play_subscribed cb Wa) = Some p'" "mainloop p'" "pcontext p'"
    using play_subscribed_priv[of Wa p cb] ctx by (auto simp: Wa_def)
  define W2 where "W2 = W1\<lparr>play_sample_r := Play_done PA_INVALID_INDEX e2 # plays,
      log := log W1 @ Ev_play_sample n ?sl # upload_events n ?sl f1 s1 (next_addr W1),
      next_addr := Suc (next_addr W1), alloc_r := True # True # True # allocs,
      lookup_r := (r2, Some f2) # lookups, stream_new_r := Pa_ok s2 # streams,
      connect_r := Pa_ok () # connects, wakeup_r := ups2 @ t2 # wakeups\<rparr>"
  define W3 where "W3 = W2\<lparr>play_sample_r := plays,
      log := log W2 @ Ev_play_sample n ?sl # upload_events n ?sl f2 s2 (next_addr W2),
      next_addr := Suc (next_addr W2), alloc_r := allocs,
      lookup_r := lookups, stream_new_r := streams,
      connect_r := connects, wakeup_r := wakeups\<rparr>"
  have s0: "driver_play ret0 Context id' (Some items) cb userdata' w =
      bnd (play_setup ret0 Context (Some items) cb out0)
        (\<lambda>(fl, v). if fl = Finish then play_finish cb v
           else bnd (play_loop Context (Some items) 3 v) ?K) Wa"
    using ctx args allocs
    by (simp add: driver_play_def out0_def Wa_def bnd_def get_priv_def ca_new0_def alloc_def
          pop_def result_def Let_def)
  have su: "play_setup ret0 Context (Some items) cb out0 Wa = (Returned (Continue, v0), W1)"
    unfolding v0_def W1_def
    using ctx args req
    by (intro play_setup_ready[where p = p and ct = ct])
       (simp_all add: Wa_def split: option.splits)
  have l3: "play_loop Context (Some items) 3 v0 W1 = play_loop Context (Some items) (3 - 1) v1 W2"
    unfolding v1_def W2_def
    using p' req plays uploads allocs
    by (intro play_loop_retry[where p = p' and ct = ct and cc = cc and e = e1 and r = r1
          and ups = ups1 and t = t1])
       (simp_all add: v0_def W1_def Wa_def)
  have l2: "play_loop Context (Some items) 2 v1 W2 = play_loop Context (Some items) (2 - 1) v2 W3"
    unfolding v2_def W3_def
    using p' req plays uploads allocs
    by (intro play_loop_retry[where p = p' and ct = ct and cc = cc and e = e2 and r = r2
          and ups = ups2 and t = t2])
       (simp_all add: v1_def v0_def W2_def W1_def Wa_def)
  have run: "driver_play ret0 Context id' (Some items) cb userdata' w =
      bnd (play_loop Context (Some items) 1 v2) ?K W3"
    using l3 l2 by (simp add: s0 bnd_def su)
  have v2: "v2 = \<lparr>pv_out = (new_outstanding (next_addr w))
                 \<lparr>otype := OUTSTANDING_SAMPLE, sink_input := PA_INVALID_INDEX, oid := id',
                  callback := cb, userdata := userdata', oerror := CA_ERROR_NOTFOUND\<rparr>,
               pv_l = Some ?sl, pv_name = Some n,
               pv_cache_control = cc, pv_ret = CA_SUCCESS\<rparr>"
    by (simp add: v2_def v1_def v0_def out0_def)
  have W3: "W3 = (play_subscribed cb w)
             \<lparr>log := log (play_subscribed cb w)
                 @ Ev_play_sample n ?sl # upload_events n ?sl f1 s1 (next_addr w + 1)
                 @ Ev_play_sample n ?sl # upload_events n ?sl f2 s2 (next_addr w + 2),
              next_addr := next_addr w + 3, alloc_r := allocs, play_sample_r := plays,
              lookup_r := lookups, stream_new_r := streams, connect_r := connects,
              wakeup_r := wakeups\<rparr>"
    unfolding W3_def W2_def W1_def Wa_def play_subscribed_allocated
    by (cases "play_subscribed cb w") simp
  show ?thesis
    unfolding run v2 W3 ..
qed

text \<open>
  The server never has the sample: after the third attempt the call goes on as the
  direct stream.
\<close>

lemma driver_play_falls_back:
  assumes "c = Context" "proplist = Some items"
    and "priv w = Some p" "mainloop p" "pcontext p"
    and "userdata' = None \<or> cb \<noteq> None"
      "cb = None \<or> subscribed p \<or> subscribe_r w = Pa_ok () # subs \<and> 0 \<le> ret0"
    and "convert_items (key_valid w) items [] = Some l"
      "pa_proplist_gets l CA_PROP_EVENT_ID = Some n"
      "case pa_proplist_gets l CA_PROP_CANBERRA_VOLUME of
         None \<Rightarrow> True | Some vol \<Rightarrow> strtod_ok w vol"
      "pa_proplist_gets l CA_PROP_CANBERRA_CACHE_CONTROL = Some ct"
      "ca_parse_cache_control CA_CACHE_CONTROL_NEVER ct = (CA_SUCCESS, cc)"
      "cc \<noteq> CA_CACHE_CONTROL_NEVER"
    and "alloc_r w = True # True # True # True # True # True # True # True # True # allocs"
    and "play_sample_r w = Play_done PA_INVALID_INDEX e1 # Play_done PA_INVALID_INDEX e2
           # Play_done idx e3 # plays"
      "translate_error (pa_err_max w) (int e1) = Returned CA_ERROR_NOTFOUND"
      "translate_error (pa_err_max w) (int e2) = Returned CA_ERROR_NOTFOUND"
    and "lookup_r w = (r1, Some f1) # (r2, Some f2) # lookups" "0 \<le> r1" "0 \<le> r2"
      "stream_new_r w = Pa_ok s1 # Pa_ok s2 # streams"
      "connect_r w = Pa_ok () # Pa_ok () # connects"
      "wakeup_r w = ups1 @ t1 # ups2 @ t2 # wakeups"
      "list_all waiting ups1" "seen_state t1 = PA_STREAM_TERMINATED"
      "list_all waiting ups2" "seen_state t2 = PA_STREAM_TERMINATED"
    and "idx = PA_INVALID_INDEX"
      "translate_error (pa_err_max w) (int e3) = Returned CA_ERROR_NOTFOUND"
  shows "driver_play ret0 c id' proplist cb userdata' w =
      bnd (play_stream
             \<lparr>pv_out = (new_outstanding (next_addr w))
                 \<lparr>otype := OUTSTANDING_SAMPLE, sink_input := PA_INVALID_INDEX, oid := id',
                  callback := cb, userdata := userdata', oerror := CA_ERROR_NOTFOUND\<rparr>,
               pv_l = Some (strip_canberra_data l), pv_name = Some n,
               pv_cache_control = cc, pv_ret = CA_SUCCESS\<rparr>)
          (play_finish cb)
          ((play_subscribed cb w)
             \<lparr>log := log (play_subscribed cb w)
                 @ retry_events n (strip_canberra_data l) f1 s1 f2 s2 (next_addr w),
              next_addr := next_addr w + 3, alloc_r := allocs, play_sample_r := plays,
              lookup_r := lookups, stream_new_r := streams, connect_r := connects,
              wakeup_r := wakeups\<rparr>)"
proof -
  note two = driver_play_two_retries[OF assms(3-14) assms(15)[unfolded assms(28)] assms(16-27),
      of id']
  show ?thesis
    unfolding assms(1,2) two bnd_def
    using assms(29)
    by (subst play_loop_last[where e = e3 and plays = plays and n = n
          and sl = "strip_canberra_data l"];
        ((simp; fail) | (cases "play_subscribed cb w", simp add: retry_events_def)))
qed

text \<open>
  The server has the sample at the third attempt: the call returns success, and the
  request is linked into the registry if it has a callback and freed if it has none.
\<close>

lemma driver_play_third_attempt:
  assumes "c = Context" "proplist = Some items"
    and "priv w = Some p" "mainloop p" "pcontext p"
    and "userdata' = None \<or> cb \<noteq> None"
      "cb = None \<or> subscribed p \<or> subscribe_r w = Pa_ok () # subs \<and> 0 \<le> ret0"
    and "convert_items (key_valid w) items [] = Some l"
      "pa_proplist_gets l CA_PROP_EVENT_ID = Some n"
      "case pa_proplist_gets l CA_PROP_CANBERRA_VOLUME of
         None \<Rightarrow> True | Some vol \<Rightarrow> strtod_ok w vol"
      "pa_proplist_gets l CA_PROP_CANBERRA_CACHE_CONTROL = Some ct"
      "ca_parse_cache_control CA_CACHE_CONTROL_NEVER ct = (CA_SUCCESS, cc)"
      "cc \<noteq> CA_CACHE_CONTROL_NEVER"
    and "alloc_r w = True # True # True # True # True # True # True # True # True # allocs"
    and "play_sample_r w = Play_done PA_INVALID_INDEX e1 # Play_done PA_INVALID_INDEX e2
           # Play_done idx e3 # plays"
      "translate_error (pa_err_max w) (int e1) = Returned CA_ERROR_NOTFOUND"
      "translate_error (pa_err_max w) (int e2) = Returned CA_ERROR_NOTFOUND"
    and "lookup_r w = (r1, Some f1) # (r2, Some f2) # lookups" "0 \<le> r1" "0 \<le> r2"
      "stream_new_r w = Pa_ok s1 # Pa_ok s2 # streams"
      "connect_r w = Pa_ok () # Pa_ok () # connects"
      "wakeup_r w = ups1 @ t1 # ups2 @ t2 # wakeups"
      "list_all waiting ups1" "seen_state t1 = PA_STREAM_TERMINATED"
      "list_all waiting ups2" "seen_state t2 = PA_STREAM_TERMINATED"
    and "idx \<noteq> PA_INVALID_INDEX"
  shows "fst (driver_play ret0 c id' proplist cb userdata' w) = Returned CA_SUCCESS"
    and "log (snd (driver_play ret0 c id' proplist cb userdata' w))
         = log (play_subscribed cb w)
           @ retry_events n (strip_canberra_data l) f1 s1 f2 s2 (next_addr w)
           @ (if cb = None then [Ev_free (next_addr w)] else [])"
proof -
  note two = driver_play_two_retries[OF assms(3-27), of id']
  obtain p' where p': "priv (play_subscribed cb w) = Some p'"
    using play_subscribed_priv[OF assms(3), of cb] by auto
  have run: "driver_play ret0 c id' proplist cb userdata' w =
      play_finish cb
        \<lparr>pv_out = (new_outstanding (next_addr w))
            \<lparr>otype := OUTSTANDING_SAMPLE, sink_input := idx, oid := id',
             callback := cb, userdata := userdata', oerror := CA_SUCCESS\<rparr>,
          pv_l = Some (strip_canberra_data l), pv_name = Some n,
          pv_cache_control = cc, pv_ret = CA_SUCCESS\<rparr>
        ((play_subscribed cb w)
           \<lparr>log := log (play_subscribed cb w)
               @ retry_events n (strip_canberra_data l) f1 s1 f2 s2 (next_addr w),
            next_addr := next_addr w + 3, alloc_r := allocs, play_sample_r := plays,
            lookup_r := lookups, stream_new_r := streams, connect_r := connects,
            wakeup_r := wakeups\<rparr>)"
    unfolding assms(1,2) two bnd_def
    using assms(28)
    by (subst play_loop_played[where idx = idx and e = e3 and plays = plays and n = n
          and sl = "strip_canberra_data l"];
        ((simp; fail)
         | (cases "play_subscribed cb w", simp add: retry_events_def new_outstanding_def)))
  show "fst (driver_play ret0 c id' proplist cb userdata' w) = Returned CA_SUCCESS"
    using p' unfolding run
    by (simp add: play_finish_def eval_defs)
  show "log (snd (driver_play ret0 c id' proplist cb userdata' w))
         = log (play_subscribed cb w)
           @ retry_events n (strip_canberra_data l) f1 s1 f2 s2 (next_addr w)
           @ (if cb = None then [Ev_free (next_addr w)] else [])"
    using p' unfolding run
    by (auto simp: play_finish_def eval_defs)
qed

lemma count_retry_uploads:
  "length (filter is_connect_upload (retry_events n l f1 s1 f2 s2 a)) = 2"
  by (simp add: retry_events_def upload_events_def)

lemma count_events_start: "log w = [] \<Longrightarrow> count_events P w = 0"
  by (simp add: count_events_def)

text \<open>
  C3, with the condition that the uploads succeed. Whatever the library and the server
  answer, and whether the call returns or not, a call of \<open>driver_play\<close> makes at most 3
  play attempts and connects at most 2 upload streams. Take a request whose properties
  name an event, carry a readable volume or none, and a cache control that permits
  retries (it parses to a value other than \<^verbatim>\<open>never\<close>), on an open context, with the
  allocations succeeding; if the request has a callback and the context is not subscribed
  yet, the server accepts the subscription and the indeterminate value that \<open>subscribe\<close>
  returns is not negative (\<open>play_subscribed\<close> is the world after that step). When
  the server does not have the sample at the first and at the second attempt (each play
  operation completes without a sink input and with an error that translates to
  \<^verbatim>\<open>CA_ERROR_NOTFOUND\<close>) and the upload after each succeeds (the sound is found, the
  upload stream is created and connected, and after any number of wake-ups it is
  terminated), then:
  if the server does not have the sample at the third attempt either, the call has made
  exactly 3 attempts and 2 uploads, and it goes on as the direct stream, \<open>play_stream\<close>
  followed by the label \<^verbatim>\<open>finish\<close>;
  if the server plays the sample at the third attempt, the call returns success, and
  exactly 2 uploads were made.
\<close>

theorem driver_play_retries:
  "count_events is_play_sample (snd (driver_play ret0 c id' proplist cb userdata' w))
     \<le> count_events is_play_sample w + 3
   \<and> count_events is_connect_upload (snd (driver_play ret0 c id' proplist cb userdata' w))
     \<le> count_events is_connect_upload w + 2
   \<and> (c = Context \<and> proplist = Some items
      \<and> priv w = Some p \<and> mainloop p \<and> pcontext p
      \<and> (userdata' = None \<or> cb \<noteq> None)
      \<and> (cb = None \<or> subscribed p \<or> subscribe_r w = Pa_ok () # subs \<and> 0 \<le> ret0)
      \<and> convert_items (key_valid w) items [] = Some l
      \<and> pa_proplist_gets l CA_PROP_EVENT_ID = Some n
      \<and> (case pa_proplist_gets l CA_PROP_CANBERRA_VOLUME of
            None \<Rightarrow> True | Some vol \<Rightarrow> strtod_ok w vol)
      \<and> pa_proplist_gets l CA_PROP_CANBERRA_CACHE_CONTROL = Some ct
      \<and> ca_parse_cache_control CA_CACHE_CONTROL_NEVER ct = (CA_SUCCESS, cc)
      \<and> cc \<noteq> CA_CACHE_CONTROL_NEVER
      \<and> alloc_r w = True # True # True # True # True # True # True # True # True # allocs
      \<and> play_sample_r w = Play_done PA_INVALID_INDEX e1 # Play_done PA_INVALID_INDEX e2
           # Play_done idx e3 # plays
      \<and> translate_error (pa_err_max w) (int e1) = Returned CA_ERROR_NOTFOUND
      \<and> translate_error (pa_err_max w) (int e2) = Returned CA_ERROR_NOTFOUND
      \<and> lookup_r w = (r1, Some f1) # (r2, Some f2) # lookups \<and> 0 \<le> r1 \<and> 0 \<le> r2
      \<and> stream_new_r w = Pa_ok s1 # Pa_ok s2 # streams
      \<and> connect_r w = Pa_ok () # Pa_ok () # connects
      \<and> wakeup_r w = ups1 @ t1 # ups2 @ t2 # wakeups
      \<and> list_all waiting ups1 \<and> seen_state t1 = PA_STREAM_TERMINATED
      \<and> list_all waiting ups2 \<and> seen_state t2 = PA_STREAM_TERMINATED
      \<longrightarrow>
        (idx = PA_INVALID_INDEX
         \<and> translate_error (pa_err_max w) (int e3) = Returned CA_ERROR_NOTFOUND
         \<longrightarrow> driver_play ret0 c id' proplist cb userdata' w
             = bnd (play_stream
                      \<lparr>pv_out = (new_outstanding (next_addr w))
                          \<lparr>otype := OUTSTANDING_SAMPLE, sink_input := PA_INVALID_INDEX,
                           oid := id', callback := cb, userdata := userdata',
                           oerror := CA_ERROR_NOTFOUND\<rparr>,
                        pv_l = Some (strip_canberra_data l), pv_name = Some n,
                        pv_cache_control = cc, pv_ret = CA_SUCCESS\<rparr>)
                   (play_finish cb)
                   ((play_subscribed cb w)
                      \<lparr>log := log (play_subscribed cb w)
                          @ retry_events n (strip_canberra_data l) f1 s1 f2 s2 (next_addr w),
                       next_addr := next_addr w + 3, alloc_r := allocs,
                       play_sample_r := plays, lookup_r := lookups, stream_new_r := streams,
                       connect_r := connects, wakeup_r := wakeups\<rparr>))
        \<and> (idx \<noteq> PA_INVALID_INDEX
           \<longrightarrow> fst (driver_play ret0 c id' proplist cb userdata' w) = Returned CA_SUCCESS
             \<and> log (snd (driver_play ret0 c id' proplist cb userdata' w))
               = log (play_subscribed cb w)
                 @ retry_events n (strip_canberra_data l) f1 s1 f2 s2 (next_addr w)
                 @ (if cb = None then [Ev_free (next_addr w)] else [])
             \<and> count_events is_connect_upload
                 (snd (driver_play ret0 c id' proplist cb userdata' w))
               = count_events is_connect_upload w + 2))"
proof (intro conjI impI, goal_cases)
  case 1
  have "count_events is_play_sample (snd (driver_play ret0 c id' proplist cb userdata' w))
          \<le> Suc (Suc (Suc (count_events is_play_sample w)))"
    by (rule hoareD[OF hoare_driver_play_plays]) simp
  then show ?case by simp
next
  case 2
  have "count_events is_connect_upload (snd (driver_play ret0 c id' proplist cb userdata' w))
          \<le> Suc (Suc (count_events is_connect_upload w))"
    by (rule hoareD[OF hoare_driver_play_uploads]) simp
  then show ?case by simp
next
  case 3
  then show ?case
    by (elim conjE) (rule driver_play_falls_back; assumption)
next
  case 4
  then show ?case
    by (elim conjE) (rule driver_play_third_attempt(1); assumption)
next
  case 5
  then show ?case
    by (elim conjE) (rule driver_play_third_attempt(2); assumption)
next
  case 6
  then have "log (snd (driver_play ret0 c id' proplist cb userdata' w))
      = log (play_subscribed cb w)
        @ retry_events n (strip_canberra_data l) f1 s1 f2 s2 (next_addr w)
        @ (if cb = None then [Ev_free (next_addr w)] else [])"
    by (elim conjE) (rule driver_play_third_attempt(2); assumption)
  moreover from 6 have "priv w = Some p" by simp
  ultimately show ?case
    by (simp add: count_events_def count_retry_uploads is_connect_upload_def
          play_subscribed_log)
qed

theorem driver_play_retries_witness:
  "driver_play 0 Context 3 (bell ''volatile'') (Some 9) None never_found_world
     = bnd (play_stream
              \<lparr>pv_out = (new_outstanding 1)
                  \<lparr>otype := OUTSTANDING_SAMPLE, sink_input := PA_INVALID_INDEX, oid := 3,
                   callback := Some 9, userdata := None, oerror := CA_ERROR_NOTFOUND\<rparr>,
                pv_l = Some [(''event.id'', ''bell''), (''canberra.cache-control'', ''volatile'')],
                pv_name = Some ''bell'', pv_cache_control = CA_CACHE_CONTROL_VOLATILE,
                pv_ret = CA_SUCCESS\<rparr>)
         (play_finish (Some 9))
         (never_found_world
            \<lparr>log := retry_events ''bell''
                [(''event.id'', ''bell''), (''canberra.cache-control'', ''volatile'')]
                bell_file 100 bell_file 101 1,
             next_addr := 4, alloc_r := [], play_sample_r := [not_found],
             lookup_r := [(0, Some bell_file)], stream_new_r := [Pa_ok 102],
             connect_r := [Pa_ok ()], wakeup_r := [stream_ready]\<rparr>)
   \<and> retries (log (snd (driver_play 0 Context 3 (bell ''volatile'') (Some 9) None
                         never_found_world)))
     = [Ev_play_sample ''bell''
          [(''event.id'', ''bell''), (''canberra.cache-control'', ''volatile'')],
        Ev_connect_upload 100 1000,
        Ev_play_sample ''bell''
          [(''event.id'', ''bell''), (''canberra.cache-control'', ''volatile'')],
        Ev_connect_upload 101 1000,
        Ev_play_sample ''bell''
          [(''event.id'', ''bell''), (''canberra.cache-control'', ''volatile'')],
        Ev_connect_playback 102]
   \<and> fst (driver_play 0 Context 3 (bell ''volatile'') (Some 9) None third_time_world)
     = Returned CA_SUCCESS
   \<and> count_events is_connect_upload
       (snd (driver_play 0 Context 3 (bell ''volatile'') (Some 9) None third_time_world)) = 2
   \<and> count_events is_play_sample
       (snd (driver_play 0 Context 3 (bell ''volatile'') (Some 9) None third_time_world)) \<le> 3"
proof -
  let ?items = "[(''event.id'', ''bell''), (''canberra.cache-control'', ''volatile'')]"
  have never: "driver_play 0 Context 3 (bell ''volatile'') (Some 9) None never_found_world
     = bnd (play_stream
              \<lparr>pv_out = (new_outstanding 1)
                  \<lparr>otype := OUTSTANDING_SAMPLE, sink_input := PA_INVALID_INDEX, oid := 3,
                   callback := Some 9, userdata := None, oerror := CA_ERROR_NOTFOUND\<rparr>,
                pv_l = Some ?items,
                pv_name = Some ''bell'', pv_cache_control = CA_CACHE_CONTROL_VOLATILE,
                pv_ret = CA_SUCCESS\<rparr>)
         (play_finish (Some 9))
         (never_found_world
            \<lparr>log := retry_events ''bell'' ?items bell_file 100 bell_file 101 1,
             next_addr := 4, alloc_r := [], play_sample_r := [not_found],
             lookup_r := [(0, Some bell_file)], stream_new_r := [Pa_ok 102],
             connect_r := [Pa_ok ()], wakeup_r := [stream_ready]\<rparr>)"
    using driver_play_retries [where ?ret0.0 = 0 and c = Context and id' = 3
        and proplist = "bell ''volatile''" and cb = "Some 9" and userdata' = None
        and w = never_found_world and items = ?items and p = "registry_of []" and subs = "[]"
        and l = ?items and n = "''bell''" and ct = "''volatile''"
        and cc = CA_CACHE_CONTROL_VOLATILE and allocs = "[]"
        and ?e1.0 = PA_ERR_NOENTITY and ?e2.0 = PA_ERR_NOENTITY and idx = PA_INVALID_INDEX
        and ?e3.0 = PA_ERR_NOENTITY and plays = "[not_found]"
        and ?r1.0 = 0 and ?f1.0 = bell_file and ?r2.0 = 0 and ?f2.0 = bell_file
        and lookups = "[(0, Some bell_file)]" and ?s1.0 = 100 and ?s2.0 = 101
        and streams = "[Pa_ok 102]" and connects = "[Pa_ok ()]"
        and ?ups1.0 = "[stream_ready]" and ?t1.0 = uploaded and ?ups2.0 = "[stream_ready]"
        and ?t2.0 = uploaded and wakeups = "[stream_ready]"]
    by (simp add: never_found_world_def willing_world_def ready_world_def registry_of_def
          bell_def not_found_def uploaded_def stream_ready_def waiting_def play_subscribed_def
          pa_proplist_gets_def ca_parse_cache_control_def strip_canberra_data_filter
          translate_error_def table_def)
  have third: "fst (driver_play 0 Context 3 (bell ''volatile'') (Some 9) None third_time_world)
       = Returned CA_SUCCESS
     \<and> count_events is_connect_upload
         (snd (driver_play 0 Context 3 (bell ''volatile'') (Some 9) None third_time_world)) = 2
     \<and> count_events is_play_sample
         (snd (driver_play 0 Context 3 (bell ''volatile'') (Some 9) None third_time_world)) \<le> 3"
    using driver_play_retries [where ?ret0.0 = 0 and c = Context and id' = 3
        and proplist = "bell ''volatile''" and cb = "Some 9" and userdata' = None
        and w = third_time_world and items = ?items
        and p = "(registry_of [])\<lparr>subscribed := False\<rparr>" and subs = "[]"
        and l = ?items and n = "''bell''" and ct = "''volatile''"
        and cc = CA_CACHE_CONTROL_VOLATILE and allocs = "[]"
        and ?e1.0 = PA_ERR_NOENTITY and ?e2.0 = PA_ERR_NOENTITY and idx = 7
        and ?e3.0 = PA_OK and plays = "[]"
        and ?r1.0 = 0 and ?f1.0 = bell_file and ?r2.0 = 0 and ?f2.0 = bell_file
        and lookups = "[(0, Some bell_file)]" and ?s1.0 = 100 and ?s2.0 = 101
        and streams = "[Pa_ok 102]" and connects = "[Pa_ok ()]"
        and ?ups1.0 = "[]" and ?t1.0 = uploaded and ?ups2.0 = "[]"
        and ?t2.0 = uploaded and wakeups = "[]"]
    by (simp add: third_time_world_def willing_world_def ready_world_def registry_of_def
          bell_def not_found_def uploaded_def waiting_def count_events_start
          play_subscribed_def pa_proplist_gets_def ca_parse_cache_control_def
          strip_canberra_data_filter translate_error_def table_def)
  have stream: "retries (log (snd (driver_play 0 Context 3 (bell ''volatile'') (Some 9) None
                         never_found_world)))
     = [Ev_play_sample ''bell'' ?items, Ev_connect_upload 100 1000,
        Ev_play_sample ''bell'' ?items, Ev_connect_upload 101 1000,
        Ev_play_sample ''bell'' ?items, Ev_connect_playback 102]"
    unfolding never
    by (simp add: play_stream_def play_wait.simps play_finish_def retries_def retry_events_def
          upload_events_def never_found_world_def willing_world_def ready_world_def
          registry_of_def bell_file_def stream_ready_def not_found_def eval_defs)
  from never stream third show ?thesis by (simp only: simp_thms)
qed

text \<open>
  The claim as it is stated asks for the direct stream whenever the cache control permits
  retries and the server never has the sample, and for exactly 2 uploads whenever the
  server has the sample at the third attempt. In \<open>upload_fails_world\<close> the cache control
  is \<^verbatim>\<open>volatile\<close>, the server does not have the sample, and the first upload fails: the
  call returns the error of the upload, \<^verbatim>\<open>CA_ERROR_TOOBIG\<close>, after one attempt, asks the
  server nothing more (two of its three answers are left) and starts no direct stream.
  In \<open>unnamed_error_world\<close> the server has the sample at the third attempt, and both
  uploads before it ended without an upload stream, on an error code that
  \<open>translate_error\<close> takes for success: the call returns success, and no upload was
  made.
\<close>

theorem driver_play_upload_failure_ends_play:
  "fst (driver_play 0 Context 3 (bell ''volatile'') (Some 9) None upload_fails_world)
     = Returned CA_ERROR_TOOBIG
   \<and> log (snd (driver_play 0 Context 3 (bell ''volatile'') (Some 9) None upload_fails_world))
     = [Ev_play_sample ''bell''
          [(''event.id'', ''bell''), (''canberra.cache-control'', ''volatile'')],
        Ev_lookup_sound,
        Ev_stream_new ''bell'' (2, 44100)
          [(''event.id'', ''bell''), (''canberra.cache-control'', ''volatile'')],
        Ev_connect_upload 100 1000, Ev_sound_file_close, Ev_stream_disconnect 100,
        Ev_free 2, Ev_free 1]
   \<and> play_sample_r
       (snd (driver_play 0 Context 3 (bell ''volatile'') (Some 9) None upload_fails_world))
     = [not_found, not_found]
   \<and> fst (driver_play 0 Context 3 (bell ''volatile'') (Some 9) None unnamed_error_world)
     = Returned CA_SUCCESS
   \<and> retries (log (snd (driver_play 0 Context 3 (bell ''volatile'') (Some 9) None
                         unnamed_error_world)))
     = [Ev_play_sample ''bell''
          [(''event.id'', ''bell''), (''canberra.cache-control'', ''volatile'')],
        Ev_play_sample ''bell''
          [(''event.id'', ''bell''), (''canberra.cache-control'', ''volatile'')],
        Ev_play_sample ''bell''
          [(''event.id'', ''bell''), (''canberra.cache-control'', ''volatile'')]]"
  by (simp add: driver_play_def play_setup_def play_loop.simps play_finish_def
        play_sample_cb_def subscribe_def driver_cache_def cache_finish_def
        cache_wait.simps convert_proplist_def pa_proplist_gets_def ca_parse_cache_control_def
        ptr_eq_int_def strip_canberra_data_filter retries_def upload_fails_world_def
        unnamed_error_world_def upload_failed_def willing_world_def ready_world_def
        registry_of_def bell_def bell_file_def not_found_def eval_defs)
end
